theory Spec2Isabelle
  imports Complex_Main "HOL-Library.Multiset" "HOL-Library.Monad_Syntax"
begin

section \<open>The encoder registry and \<open>register_models\<close>\<close>

text \<open>
  \<open>quad_multi_model.py\<close> ends with the registration function

  \<^verbatim>\<open>
  def register_models(quad_custom_encoder_name='quad_multi_encoder_deepset'):
      if quad_custom_encoder_name not in ENCODER_REGISTRY:
          if quad_custom_encoder_name == 'quad_multi_encoder_deepset':
              register_custom_encoder(quad_custom_encoder_name, QuadMultiMeanEncoder)
          elif quad_custom_encoder_name == 'quad_multi_encoder_histogram':
              register_custom_encoder(quad_custom_encoder_name, QuadMultiHistogramEncoder)
          else:
              raise NotImplementedError(f'encoder {quad_custom_encoder_name} not supported!')
  \<close>

  The registry \<open>ENCODER_REGISTRY\<close> is a process-wide dictionary from key strings to
  encoder classes. It is threaded through the model explicitly: a call takes the
  registry and returns its outcome together with the registry it leaves behind, so
  that the state after a raised exception is visible too.
\<close>

text \<open>
  The values of the registry are classes. The two classes of this module are named;
  any class some other module registered is \<open>OtherEncoder\<close> with its name.
\<close>

datatype encoder_cls =
    QuadMultiMeanEncoder
  | QuadMultiHistogramEncoder
  | OtherEncoder string

type_synonym registry = "string \<rightharpoonup> encoder_cls"

datatype error = NotImplementedError string

text \<open>
  Modelled from the spec: \<open>register_custom_encoder\<close> is imported from
  \<open>algorithms.appo.model_utils\<close>, which is not part of the sources at hand. The
  spec has it register an encoder class "under a string key into a global registry
  owned by the training framework", and a later registry lookup of that key return
  the class: the entry of the key is set to the class, nothing else changes.
\<close>

definition register_custom_encoder :: "string \<Rightarrow> encoder_cls \<Rightarrow> registry \<Rightarrow> registry" where
  "register_custom_encoder custom_encoder_name encoder_cls ENCODER_REGISTRY =
     ENCODER_REGISTRY(custom_encoder_name \<mapsto> encoder_cls)"

text \<open>
  The optional argument of \<open>register_models\<close> is an \<open>option\<close>: \<open>None\<close> is the
  call \<open>register_models()\<close>, which takes the default of the signature.
\<close>

definition register_models :: "string option \<Rightarrow> registry \<Rightarrow> (error + unit) \<times> registry" where
  "register_models arg ENCODER_REGISTRY =
     (let quad_custom_encoder_name =
            (case arg of None \<Rightarrow> ''quad_multi_encoder_deepset'' | Some name \<Rightarrow> name)
      in if ENCODER_REGISTRY quad_custom_encoder_name = None then
           if quad_custom_encoder_name = ''quad_multi_encoder_deepset'' then
             (Inr (), register_custom_encoder quad_custom_encoder_name QuadMultiMeanEncoder
                        ENCODER_REGISTRY)
           else if quad_custom_encoder_name = ''quad_multi_encoder_histogram'' then
             (Inr (), register_custom_encoder quad_custom_encoder_name QuadMultiHistogramEncoder
                        ENCODER_REGISTRY)
           else
             (Inl (NotImplementedError (''encoder '' @ quad_custom_encoder_name @ '' not supported!'')),
              ENCODER_REGISTRY)
         else (Inr (), ENCODER_REGISTRY))"

text \<open>The message of an error, and whether a call raised.\<close>

fun message :: "error \<Rightarrow> string" where
  "message (NotImplementedError msg) = msg"

definition raises :: "(error + unit) \<times> registry \<Rightarrow> bool" where
  "raises r = (case fst r of Inl _ \<Rightarrow> True | Inr _ \<Rightarrow> False)"

section \<open>Numbers\<close>

text \<open>
  The encoders compute on tensors of floating-point numbers. Their entries are
  modelled as exact real numbers together with the one special value the program can
  produce by itself, \<open>NaN\<close>: rounding, overflow and the infinities are not
  modelled. \<open>NaN\<close> is absorbing for addition and multiplication, as in IEEE
  arithmetic; on numbers, addition and multiplication are those of the reals.
\<close>

datatype fl = NaN | Fin real

instantiation fl :: "{comm_monoid_add, times}"
begin

definition zero_fl :: fl where
  "zero_fl = Fin 0"

definition plus_fl :: "fl \<Rightarrow> fl \<Rightarrow> fl" where
  "plus_fl a b = (case a of NaN \<Rightarrow> NaN | Fin x \<Rightarrow> (case b of NaN \<Rightarrow> NaN | Fin y \<Rightarrow> Fin (x + y)))"

definition times_fl :: "fl \<Rightarrow> fl \<Rightarrow> fl" where
  "times_fl a b = (case a of NaN \<Rightarrow> NaN | Fin x \<Rightarrow> (case b of NaN \<Rightarrow> NaN | Fin y \<Rightarrow> Fin (x * y)))"

instance
proof
  fix a b c :: fl
  show "a + b + c = a + (b + c)"
    by (simp add: plus_fl_def split: fl.splits)
  show "a + b = b + a"
    by (simp add: plus_fl_def split: fl.splits)
  show "0 + a = a"
    by (simp add: plus_fl_def zero_fl_def split: fl.splits)
qed

end

text \<open>
  \<open>torch.mean\<close> over some elements is their sum divided by their count. Over no
  element it is \<open>0 / 0\<close>, which is \<open>NaN\<close>: it raises nothing.
\<close>

definition mean_fl :: "fl list \<Rightarrow> fl" where
  "mean_fl xs =
     (if xs = [] then NaN
      else case sum_list xs of NaN \<Rightarrow> NaN | Fin v \<Rightarrow> Fin (v / real (length xs)))"

section \<open>Tensors and the operations of the tensor library\<close>

text \<open>
  A tensor is its shape and its entries in row-major order. Every operation below
  returns \<open>None\<close> where the library raises (a shape mismatch, an index out of range)
  and \<open>Some\<close> of the result otherwise. \<open>numel\<close> is the number of entries the
  shape announces.
\<close>

record tensor =
  shape :: "nat list"
  data :: "fl list"

definition numel :: "tensor \<Rightarrow> nat" where
  "numel t = prod_list (shape t)"

text \<open>
  \<open>chunks r c xs\<close> cuts a row-major list into \<open>r\<close> consecutive rows of
  \<open>c\<close> entries. \<open>batch w rows\<close> is the two-dimensional tensor whose rows are
  \<open>rows\<close>, each of width \<open>w\<close>: a batch of \<open>length rows\<close> flat observation
  vectors. The width is kept apart because an empty batch still has one.
\<close>

fun chunks :: "nat \<Rightarrow> nat \<Rightarrow> 'a list \<Rightarrow> 'a list list" where
  "chunks 0 c xs = []"
| "chunks (Suc r) c xs = take c xs # chunks r c (drop c xs)"

definition batch :: "nat \<Rightarrow> fl list list \<Rightarrow> tensor" where
  "batch w rows = \<lparr>shape = [length rows, w], data = concat rows\<rparr>"

text \<open>
  \<open>slice_dim1 start stop t\<close> is the Python expression \<open>t[:, start:stop]\<close> for
  non-negative bounds; \<open>stop = None\<close> is the open slice \<open>t[:, start:]\<close>. Both bounds
  are clipped to the size of the second axis, as Python slices are, so a slice never
  raises on a tensor with at least two axes; on a tensor with fewer axes the index
  expression raises.
\<close>

definition slice_dim1 :: "nat \<Rightarrow> nat option \<Rightarrow> tensor \<Rightarrow> tensor option" where
  "slice_dim1 start stop t =
     (case shape t of
        b # w # rest \<Rightarrow>
          let k = prod_list rest;
              lo = min start w;
              hi = (case stop of None \<Rightarrow> w | Some e \<Rightarrow> min e w)
          in Some \<lparr>shape = b # (hi - lo) # rest,
                   data = concat (map (\<lambda>blk. take ((hi - lo) * k) (drop (lo * k) blk))
                                      (chunks b (w * k) (data t)))\<rparr>
      | _ \<Rightarrow> None)"

text \<open>
  \<open>reshape\<close> keeps the entries in row-major order and changes the shape. The new
  shape may hold one \<open>-1\<close>, whose size is inferred from the number of entries.
  \<open>infer_size\<close> follows the library's rule: the product of the given sizes must
  divide the number of entries (or equal it when nothing is inferred), and a \<open>-1\<close>
  next to a size of \<open>0\<close> is refused as ambiguous, also for a tensor without
  entries.
\<close>

definition infer_size :: "int list \<Rightarrow> nat \<Rightarrow> nat list option" where
  "infer_size sz n =
     (if \<exists>d \<in> set sz. d < - 1 then None
      else if 1 < length (filter (\<lambda>d. d = - 1) sz) then None
      else
        let newsize = prod_list (map nat (filter (\<lambda>d. d \<noteq> - 1) sz));
            infer_dim = (- 1 \<in> set sz)
        in if n = newsize \<or> (infer_dim \<and> 0 < newsize \<and> n mod newsize = 0) then
             if infer_dim then
               if newsize = 0 then None
               else Some (map (\<lambda>d. if d = - 1 then n div newsize else nat d) sz)
             else Some (map nat sz)
           else None)"

definition reshape :: "tensor \<Rightarrow> int list \<Rightarrow> tensor option" where
  "reshape t sz =
     (case infer_size sz (numel t) of
        None \<Rightarrow> None
      | Some s \<Rightarrow> Some \<lparr>shape = s, data = data t\<rparr>)"

text \<open>
  \<open>torch.mean(t, dim=1)\<close> averages over the second axis, and
  \<open>torch.cat((x, y), dim=1)\<close> joins two tensors along it; the latter needs the other
  axes to agree. (The library also lets \<open>cat\<close> skip a one-dimensional tensor without
  entries; the encoders only join tensors of two axes.)
\<close>

definition torch_mean_dim1 :: "tensor \<Rightarrow> tensor option" where
  "torch_mean_dim1 t =
     (case shape t of
        b # n # rest \<Rightarrow>
          let k = prod_list rest
          in Some \<lparr>shape = b # rest,
                   data = concat (map (\<lambda>blk. map (\<lambda>j. mean_fl (map (\<lambda>v. v ! j) (chunks n k blk))) [0..<k])
                                      (chunks b (n * k) (data t)))\<rparr>
      | _ \<Rightarrow> None)"

definition torch_cat_dim1 :: "tensor \<Rightarrow> tensor \<Rightarrow> tensor option" where
  "torch_cat_dim1 x y =
     (case (shape x, shape y) of
        (bx # wx # restx, by # wy # resty) \<Rightarrow>
          if bx = by \<and> restx = resty then
            let k = prod_list restx
            in Some \<lparr>shape = bx # (wx + wy) # restx,
                     data = concat (map2 (@) (chunks bx (wx * k) (data x))
                                             (chunks by (wy * k) (data y)))\<rparr>
          else None
      | _ \<Rightarrow> None)"

section \<open>Network modules\<close>

text \<open>
  \<open>nn.Linear(in_features, out_features)\<close> holds a weight matrix and a bias vector;
  applied to a tensor whose last axis has \<open>in_features\<close> entries it maps every row
  \<open>x\<close> to \<open>x W\<^sup>T + b\<close>, and raises on any other tensor. The library draws the
  initial parameters at random and training changes them; here the constructor takes
  them as an argument (\<open>linear_init\<close>: the weight by output and input index, the
  bias by output index), so that every statement below holds for all parameter values.
\<close>

record linear =
  in_features :: nat
  out_features :: nat
  weight :: "nat \<Rightarrow> nat \<Rightarrow> fl"
  bias :: "nat \<Rightarrow> fl"

type_synonym linear_init = "(nat \<Rightarrow> nat \<Rightarrow> fl) \<times> (nat \<Rightarrow> fl)"

definition nn_Linear :: "nat \<Rightarrow> nat \<Rightarrow> linear_init \<Rightarrow> linear" where
  "nn_Linear n_in n_out wb =
     \<lparr>in_features = n_in, out_features = n_out, weight = fst wb, bias = snd wb\<rparr>"

definition linear_row :: "linear \<Rightarrow> fl list \<Rightarrow> fl list" where
  "linear_row L x =
     map (\<lambda>j. sum_list (map (\<lambda>i. x ! i * weight L j i) [0..<in_features L]) + bias L j)
         [0..<out_features L]"

definition apply_linear :: "linear \<Rightarrow> tensor \<Rightarrow> tensor option" where
  "apply_linear L t =
     (if shape t \<noteq> [] \<and> last (shape t) = in_features L then
        let lead = butlast (shape t)
        in Some \<lparr>shape = lead @ [out_features L],
                 data = concat (map (linear_row L)
                                    (chunks (prod_list lead) (in_features L) (data t)))\<rparr>
      else None)"

text \<open>
  \<open>nn.Sequential\<close> applies its modules in order. A module is a linear layer or an
  elementwise activation.
\<close>

datatype nn_module = Linear linear | Activation "fl \<Rightarrow> fl"

fun apply_module :: "nn_module \<Rightarrow> tensor \<Rightarrow> tensor option" where
  "apply_module (Linear L) t = apply_linear L t"
| "apply_module (Activation f) t = Some (t\<lparr>data := map f (data t)\<rparr>)"

type_synonym sequential = "nn_module list"

fun apply_sequential :: "sequential \<Rightarrow> tensor \<Rightarrow> tensor option" where
  "apply_sequential [] t = Some t"
| "apply_sequential (m # ms) t = do { y \<leftarrow> apply_module m t; apply_sequential ms y }"

text \<open>
  The configuration object \<open>cfg\<close>, as far as the encoders use it: they read
  \<open>cfg.hidden_size\<close> and pass \<open>cfg\<close> to \<open>nonlinearity\<close>, which reads the
  activation the configuration selects.
\<close>

record config =
  hidden_size :: nat
  activation :: "fl \<Rightarrow> fl"

text \<open>
  Modelled from the spec: \<open>nonlinearity\<close> is imported from
  \<open>algorithms.appo.model_utils\<close>, which is not part of the sources at hand. The spec
  has the configuration expose "a nonlinearity-selection option" and every layer
  followed by "a nonlinearity": the selected activation is an elementwise function,
  kept in the configuration as \<open>activation\<close>.
\<close>

definition nonlinearity :: "config \<Rightarrow> nn_module" where
  "nonlinearity cfg = Activation (activation cfg)"

text \<open>
  Modelled from the spec: \<open>calc_num_elements\<close> is imported from
  \<open>algorithms.utils.pytorch_utils\<close>, which is not part of the sources at hand. The
  spec has the final layer take the concatenation of the two embeddings; the helper is
  what its name says, the number of elements a module outputs for one input of the
  given shape, found by running the module on a probe of one row (whose values do not
  matter).
\<close>

definition calc_num_elements :: "sequential \<Rightarrow> nat list \<Rightarrow> nat option" where
  "calc_num_elements net input_shape =
     do {
       let shape_with_batch_dim = 1 # input_shape;
       let some_input = \<lparr>shape = shape_with_batch_dim,
                         data = replicate (prod_list shape_with_batch_dim) 0\<rparr>;
       y \<leftarrow> apply_sequential net some_input;
       Some (numel y)
     }"

section \<open>The mean-embedding encoder\<close>

text \<open>
  \<^verbatim>\<open>
  class QuadMultiMeanEncoder(EncoderBase):
      def __init__(self, cfg, obs_space, timing, self_obs_dim=18, neighbor_obs_dim=6,
                   neighbor_hidden_size=32):
          super().__init__(cfg, timing)
          self.self_obs_dim = self_obs_dim
          self.neighbor_obs_dim = neighbor_obs_dim
          self.neighbor_hidden_size = neighbor_hidden_size
          fc_encoder_layer = cfg.hidden_size
          self.self_encoder = nn.Sequential(
              nn.Linear(self.self_obs_dim, fc_encoder_layer), nonlinearity(cfg),
              nn.Linear(fc_encoder_layer, fc_encoder_layer), nonlinearity(cfg))
          self.neighbor_encoder = nn.Sequential(
              nn.Linear(self.neighbor_obs_dim, self.neighbor_hidden_size), nonlinearity(cfg))
          self.self_encoder_out_size = calc_num_elements(self.self_encoder, (self.self_obs_dim,))
          self.neighbor_encoder_out_size = calc_num_elements(self.neighbor_encoder, (self.neighbor_obs_dim,))
          self.feed_forward = nn.Linear(self.self_encoder_out_size + self.neighbor_encoder_out_size,
                                        cfg.hidden_size)
          self.init_fc_blocks(cfg.hidden_size)
  \<close>

  An optional argument is an \<open>option\<close>: \<open>None\<close> takes the default of the signature.
  Sizes are natural numbers (the library refuses a negative one when the layer is
  built). The \<open>k\<close>-th linear layer built takes its parameters from \<open>params k\<close>.
  \<open>obs_space\<close> and \<open>timing\<close> are not read by anything below and are left out, and
  so are the two calls into the base class \<open>EncoderBase\<close> (not part of the sources at
  hand), which set no attribute that \<open>forward\<close> reads.
\<close>

record mean_enc =
  self_obs_dim :: nat
  neighbor_obs_dim :: nat
  neighbor_hidden_size :: nat
  self_encoder :: sequential
  neighbor_encoder :: sequential
  self_encoder_out_size :: nat
  neighbor_encoder_out_size :: nat
  feed_forward :: linear

definition QuadMultiMeanEncoder_init ::
  "config \<Rightarrow> (nat \<Rightarrow> linear_init) \<Rightarrow> nat option \<Rightarrow> nat option \<Rightarrow> nat option \<Rightarrow> mean_enc option" where
  "QuadMultiMeanEncoder_init cfg params arg_self_obs_dim arg_neighbor_obs_dim arg_neighbor_hidden_size =
     do {
       let self_obs_dim = (case arg_self_obs_dim of None \<Rightarrow> 18 | Some v \<Rightarrow> v);
       let neighbor_obs_dim = (case arg_neighbor_obs_dim of None \<Rightarrow> 6 | Some v \<Rightarrow> v);
       let neighbor_hidden_size = (case arg_neighbor_hidden_size of None \<Rightarrow> 32 | Some v \<Rightarrow> v);
       let fc_encoder_layer = hidden_size cfg;
       let self_encoder =
             [Linear (nn_Linear self_obs_dim fc_encoder_layer (params 0)),
              nonlinearity cfg,
              Linear (nn_Linear fc_encoder_layer fc_encoder_layer (params 1)),
              nonlinearity cfg];
       let neighbor_encoder =
             [Linear (nn_Linear neighbor_obs_dim neighbor_hidden_size (params 2)),
              nonlinearity cfg];
       self_encoder_out_size \<leftarrow> calc_num_elements self_encoder [self_obs_dim];
       neighbor_encoder_out_size \<leftarrow> calc_num_elements neighbor_encoder [neighbor_obs_dim];
       let feed_forward =
             nn_Linear (self_encoder_out_size + neighbor_encoder_out_size) (hidden_size cfg) (params 3);
       Some \<lparr>self_obs_dim = self_obs_dim,
             neighbor_obs_dim = neighbor_obs_dim,
             neighbor_hidden_size = neighbor_hidden_size,
             self_encoder = self_encoder,
             neighbor_encoder = neighbor_encoder,
             self_encoder_out_size = self_encoder_out_size,
             neighbor_encoder_out_size = neighbor_encoder_out_size,
             feed_forward = feed_forward\<rparr>
     }"

text \<open>
  \<^verbatim>\<open>
      def forward(self, obs_dict):
          obs = obs_dict['obs']
          obs_self, obs_neighbors = obs[:, :self.self_obs_dim], obs[:, self.self_obs_dim:]
          self_embed = self.self_encoder(obs_self)
          obs_neighbors = obs_neighbors.reshape(-1, self.neighbor_obs_dim)
          neighbor_embeds = self.neighbor_encoder(obs_neighbors)
          batch_size = obs_self.shape[0]
          neighbor_embeds = neighbor_embeds.reshape(batch_size, -1, self.neighbor_hidden_size)
          mean_embed = torch.mean(neighbor_embeds, dim=1)
          embeddings = torch.cat((self_embed, mean_embed), dim=1)
          out = self.feed_forward(embeddings)
          return out
  \<close>

  The observation dictionary is a map from keys to tensors; a missing key raises.
  \<open>obs_self.shape[0]\<close> is read after the slice succeeded, so the shape has a first
  entry.
\<close>

definition QuadMultiMeanEncoder_forward :: "mean_enc \<Rightarrow> (string \<rightharpoonup> tensor) \<Rightarrow> tensor option" where
  "QuadMultiMeanEncoder_forward self obs_dict =
     do {
       obs \<leftarrow> obs_dict ''obs'';
       obs_self \<leftarrow> slice_dim1 0 (Some (self_obs_dim self)) obs;
       obs_neighbors \<leftarrow> slice_dim1 (self_obs_dim self) None obs;
       self_embed \<leftarrow> apply_sequential (self_encoder self) obs_self;
       obs_neighbors \<leftarrow> reshape obs_neighbors [- 1, int (neighbor_obs_dim self)];
       neighbor_embeds \<leftarrow> apply_sequential (neighbor_encoder self) obs_neighbors;
       let batch_size = hd (shape obs_self);
       neighbor_embeds \<leftarrow> reshape neighbor_embeds [int batch_size, - 1, int (neighbor_hidden_size self)];
       mean_embed \<leftarrow> torch_mean_dim1 neighbor_embeds;
       embeddings \<leftarrow> torch_cat_dim1 self_embed mean_embed;
       out \<leftarrow> apply_linear (feed_forward self) embeddings;
       Some out
     }"

text \<open>
  The statements of \<open>forward\<close> up to the second \<open>reshape\<close>:

  \<^verbatim>\<open>
          obs = obs_dict['obs']
          obs_self, obs_neighbors = obs[:, :self.self_obs_dim], obs[:, self.self_obs_dim:]
          self_embed = self.self_encoder(obs_self)
          obs_neighbors = obs_neighbors.reshape(-1, self.neighbor_obs_dim)
          neighbor_embeds = self.neighbor_encoder(obs_neighbors)
          batch_size = obs_self.shape[0]
          neighbor_embeds = neighbor_embeds.reshape(batch_size, -1, self.neighbor_hidden_size)
  \<close>

  They leave the two tensors that the rest of \<open>forward\<close> reads, \<open>self_embed\<close> and
  \<open>neighbor_embeds\<close>. The second axis of \<open>neighbor_embeds\<close> is the one over which
  \<open>torch.mean\<close> averages: its length is the number of neighbours.
\<close>

definition QuadMultiMeanEncoder_forward_before_mean ::
  "mean_enc \<Rightarrow> (string \<rightharpoonup> tensor) \<Rightarrow> (tensor \<times> tensor) option" where
  "QuadMultiMeanEncoder_forward_before_mean self obs_dict =
     do {
       obs \<leftarrow> obs_dict ''obs'';
       obs_self \<leftarrow> slice_dim1 0 (Some (self_obs_dim self)) obs;
       obs_neighbors \<leftarrow> slice_dim1 (self_obs_dim self) None obs;
       self_embed \<leftarrow> apply_sequential (self_encoder self) obs_self;
       obs_neighbors \<leftarrow> reshape obs_neighbors [- 1, int (neighbor_obs_dim self)];
       neighbor_embeds \<leftarrow> apply_sequential (neighbor_encoder self) obs_neighbors;
       let batch_size = hd (shape obs_self);
       neighbor_embeds \<leftarrow> reshape neighbor_embeds [int batch_size, - 1, int (neighbor_hidden_size self)];
       Some (self_embed, neighbor_embeds)
     }"

section \<open>The histogram encoder\<close>

text \<open>
  \<^verbatim>\<open>
  class QuadMultiHistogramEncoder(EncoderBase):
      def __init__(self, cfg, obs_space, timing, self_obs_dim=18, histogram_bins=64,
                   histogram_hidden_size=64):
          super().__init__(cfg, timing)
          self.self_obs_dim = self_obs_dim
          self.histogram_bins = histogram_bins
          self.histogram_hidden_size = histogram_hidden_size
          fc_encoder_layer = cfg.hidden_size
          self.self_encoder = nn.Sequential(
              nn.Linear(self.self_obs_dim, fc_encoder_layer), nonlinearity(cfg),
              nn.Linear(fc_encoder_layer, fc_encoder_layer), nonlinearity(cfg))
          self.histogram_encoder = nn.Sequential(
              nn.Linear(self.histogram_bins, self.histogram_hidden_size), nonlinearity(cfg))
          self.self_encoder_out_size = calc_num_elements(self.self_encoder, (self.self_obs_dim,))
          self.histogram_encoder_out_size = calc_num_elements(self.histogram_encoder, (self.histogram_bins,))
          self.feed_forward = nn.Linear(self.self_encoder_out_size + self.histogram_encoder_out_size,
                                        cfg.hidden_size)
          self.encoder_out_size = cfg.hidden_size

      def forward(self, obs_dict):
          obs = obs_dict['obs']
          obs_self, obs_histogram = obs[:, :self.self_obs_dim], obs[:, self.self_obs_dim:]
          self_embed = self.self_encoder(obs_self)
          histogram_embeds = self.histogram_encoder(obs_histogram)
          embeddings = torch.cat((self_embed, histogram_embeds), dim=1)
          out = self.feed_forward(embeddings)
          return out
  \<close>

  The attributes the two classes share keep their names; where both records are in
  scope, those of the mean-embedding encoder are written \<open>mean_enc.self_obs_dim\<close> and
  so on.
\<close>

record hist_enc =
  self_obs_dim :: nat
  histogram_bins :: nat
  histogram_hidden_size :: nat
  self_encoder :: sequential
  histogram_encoder :: sequential
  self_encoder_out_size :: nat
  histogram_encoder_out_size :: nat
  feed_forward :: linear
  encoder_out_size :: nat

definition QuadMultiHistogramEncoder_init ::
  "config \<Rightarrow> (nat \<Rightarrow> linear_init) \<Rightarrow> nat option \<Rightarrow> nat option \<Rightarrow> nat option \<Rightarrow> hist_enc option" where
  "QuadMultiHistogramEncoder_init cfg params arg_self_obs_dim arg_histogram_bins arg_histogram_hidden_size =
     do {
       let self_obs_dim = (case arg_self_obs_dim of None \<Rightarrow> 18 | Some v \<Rightarrow> v);
       let histogram_bins = (case arg_histogram_bins of None \<Rightarrow> 64 | Some v \<Rightarrow> v);
       let histogram_hidden_size = (case arg_histogram_hidden_size of None \<Rightarrow> 64 | Some v \<Rightarrow> v);
       let fc_encoder_layer = hidden_size cfg;
       let self_encoder =
             [Linear (nn_Linear self_obs_dim fc_encoder_layer (params 0)),
              nonlinearity cfg,
              Linear (nn_Linear fc_encoder_layer fc_encoder_layer (params 1)),
              nonlinearity cfg];
       let histogram_encoder =
             [Linear (nn_Linear histogram_bins histogram_hidden_size (params 2)),
              nonlinearity cfg];
       self_encoder_out_size \<leftarrow> calc_num_elements self_encoder [self_obs_dim];
       histogram_encoder_out_size \<leftarrow> calc_num_elements histogram_encoder [histogram_bins];
       let feed_forward =
             nn_Linear (self_encoder_out_size + histogram_encoder_out_size) (hidden_size cfg) (params 3);
       Some \<lparr>self_obs_dim = self_obs_dim,
             histogram_bins = histogram_bins,
             histogram_hidden_size = histogram_hidden_size,
             self_encoder = self_encoder,
             histogram_encoder = histogram_encoder,
             self_encoder_out_size = self_encoder_out_size,
             histogram_encoder_out_size = histogram_encoder_out_size,
             feed_forward = feed_forward,
             encoder_out_size = hidden_size cfg\<rparr>
     }"

definition QuadMultiHistogramEncoder_forward :: "hist_enc \<Rightarrow> (string \<rightharpoonup> tensor) \<Rightarrow> tensor option" where
  "QuadMultiHistogramEncoder_forward self obs_dict =
     do {
       obs \<leftarrow> obs_dict ''obs'';
       obs_self \<leftarrow> slice_dim1 0 (Some (self_obs_dim self)) obs;
       obs_histogram \<leftarrow> slice_dim1 (self_obs_dim self) None obs;
       self_embed \<leftarrow> apply_sequential (self_encoder self) obs_self;
       histogram_embeds \<leftarrow> apply_sequential (histogram_encoder self) obs_histogram;
       embeddings \<leftarrow> torch_cat_dim1 self_embed histogram_embeds;
       out \<leftarrow> apply_linear (feed_forward self) embeddings;
       Some out
     }"

section \<open>The pipeline in the words of the specification\<close>

text \<open>
  The specification describes the mean-embedding encoder on the observation vectors
  themselves. A fully-connected layer maps a vector \<open>x\<close> to \<open>W x + b\<close>. The self
  segment passes "through a two-layer fully-connected network with a nonlinearity
  after each layer"; a context vector (one neighbour's, or the histogram) passes
  "through a single fully-connected layer with nonlinearity".
\<close>

definition fully_connected :: "linear_init \<Rightarrow> nat \<Rightarrow> nat \<Rightarrow> fl list \<Rightarrow> fl list" where
  "fully_connected wb n_in n_out x =
     map (\<lambda>j. sum_list (map (\<lambda>i. x ! i * fst wb j i) [0..<n_in]) + snd wb j) [0..<n_out]"

definition self_embedding :: "config \<Rightarrow> (nat \<Rightarrow> linear_init) \<Rightarrow> nat \<Rightarrow> fl list \<Rightarrow> fl list" where
  "self_embedding cfg params s x =
     map (activation cfg)
       (fully_connected (params 1) (hidden_size cfg) (hidden_size cfg)
          (map (activation cfg) (fully_connected (params 0) s (hidden_size cfg) x)))"

definition context_embedding ::
  "config \<Rightarrow> (nat \<Rightarrow> linear_init) \<Rightarrow> nat \<Rightarrow> nat \<Rightarrow> fl list \<Rightarrow> fl list" where
  "context_embedding cfg params d k v = map (activation cfg) (fully_connected (params 2) d k v)"

text \<open>
  The neighbour segments of the batch are "reshaped from batch x (neighbors x
  neighbor_obs_dim) into (batch x neighbors) x neighbor_obs_dim, passed through a
  single fully-connected layer with nonlinearity, then reshaped back to batch x
  neighbors x hidden and averaged over the neighbor axis"; the two embeddings "are
  concatenated and passed through a final fully-connected layer". \<open>spec_mean_encoder\<close>
  writes this on lists of vectors, not from the code.
\<close>

definition mean_over_neighbors :: "nat \<Rightarrow> fl list list \<Rightarrow> fl list" where
  "mean_over_neighbors k es = map (\<lambda>j. mean_fl (map (\<lambda>e. e ! j) es)) [0..<k]"

definition spec_mean_encoder ::
  "config \<Rightarrow> (nat \<Rightarrow> linear_init) \<Rightarrow> nat \<Rightarrow> nat \<Rightarrow> nat \<Rightarrow> fl list list \<Rightarrow> fl list list" where
  "spec_mean_encoder cfg params s d k rows =
     (let self_embeds = map (\<lambda>r. self_embedding cfg params s (take s r)) rows;
          neighbor_segments = concat (map (drop s) rows);
          neighbor_rows = chunks (length neighbor_segments div d) d neighbor_segments;
          neighbor_embeds = map (context_embedding cfg params d k) neighbor_rows;
          per_observation = chunks (length rows) (length neighbor_embeds div length rows) neighbor_embeds;
          mean_embeds = map (mean_over_neighbors k) per_observation
      in map2 (\<lambda>a m. fully_connected (params 3) (hidden_size cfg + k) (hidden_size cfg) (a @ m))
              self_embeds mean_embeds)"

text \<open>
  What the pipelines do to one observation vector; \<open>batch3\<close> is the
  three-dimensional tensor of a batch of blocks of \<open>n\<close> vectors of width \<open>k\<close>.
  These are the intermediate forms of the proofs.
\<close>

definition mean_encoder_row ::
  "config \<Rightarrow> (nat \<Rightarrow> linear_init) \<Rightarrow> nat \<Rightarrow> nat \<Rightarrow> nat \<Rightarrow> fl list \<Rightarrow> fl list" where
  "mean_encoder_row cfg params s d k r =
     fully_connected (params 3) (hidden_size cfg + k) (hidden_size cfg)
       (self_embedding cfg params s (take s r)
        @ mean_over_neighbors k
            (map (context_embedding cfg params d k) (chunks ((length r - s) div d) d (drop s r))))"

definition histogram_encoder_row ::
  "config \<Rightarrow> (nat \<Rightarrow> linear_init) \<Rightarrow> nat \<Rightarrow> nat \<Rightarrow> nat \<Rightarrow> fl list \<Rightarrow> fl list" where
  "histogram_encoder_row cfg params s bins k r =
     fully_connected (params 3) (hidden_size cfg + k) (hidden_size cfg)
       (self_embedding cfg params s (take s r) @ context_embedding cfg params bins k (drop s r))"

definition batch3 :: "nat \<Rightarrow> nat \<Rightarrow> fl list list list \<Rightarrow> tensor" where
  "batch3 n k blocks = \<lparr>shape = [length blocks, n, k], data = concat (map concat blocks)\<rparr>"

text \<open>
  A small configuration and parameter set, for statements at concrete inputs.
\<close>

definition example_cfg :: config where
  "example_cfg = \<lparr>hidden_size = 2, activation = (\<lambda>x. x * x)\<rparr>"

definition example_params :: "nat \<Rightarrow> linear_init" where
  "example_params l = (\<lambda>j i. Fin (real (l + j + i)), \<lambda>j. Fin 1)"

section \<open>Lemmas: rows, shapes and numbers\<close>

lemma length_chunks [simp]: "length (chunks r c xs) = r"
  by (induction r arbitrary: xs) auto

lemma chunks_concat:
  "length xss = r \<Longrightarrow> \<forall>xs \<in> set xss. length xs = c \<Longrightarrow> chunks r c (concat xss) = xss"
  by (induction xss arbitrary: r) auto

lemma concat_chunks: "length xs = r * c \<Longrightarrow> concat (chunks r c xs) = xs"
proof (induction r arbitrary: xs)
  case 0
  then show ?case by simp
next
  case (Suc r)
  then have "concat (chunks r c (drop c xs)) = drop c xs" by simp
  then show ?case by simp
qed

lemma length_in_chunks:
  "length xs = r * c \<Longrightarrow> x \<in> set (chunks r c xs) \<Longrightarrow> length x = c"
proof (induction r arbitrary: xs)
  case 0
  then show ?case by simp
next
  case (Suc r)
  from Suc.prems(2) consider "x = take c xs" | "x \<in> set (chunks r c (drop c xs))"
    by auto
  then show ?case
  proof cases
    case 1
    with Suc.prems(1) show ?thesis by simp
  next
    case 2
    moreover from Suc.prems(1) have "length (drop c xs) = r * c" by simp
    ultimately show ?thesis by (rule Suc.IH [rotated])
  qed
qed

lemma length_concat_const:
  "\<forall>xs \<in> set xss. length xs = n \<Longrightarrow> length (concat xss) = length xss * n"
  by (induction xss) auto

lemma chunks_concat_concat:
  assumes "\<forall>xs \<in> set xss. length xs = n * c"
  shows "chunks (length xss * n) c (concat xss) = concat (map (chunks n c) xss)"
proof -
  let ?yss = "concat (map (chunks n c) xss)"
  have "concat ?yss = concat xss"
    using assms by (induction xss) (simp_all add: concat_chunks)
  moreover have "length ?yss = length xss * n"
    by (induction xss) simp_all
  moreover have "\<forall>v \<in> set ?yss. length v = c"
  proof
    fix v assume "v \<in> set ?yss"
    then obtain xs where "xs \<in> set xss" "v \<in> set (chunks n c xs)" by auto
    with assms show "length v = c" by (blast intro: length_in_chunks)
  qed
  ultimately show ?thesis
    using chunks_concat [of ?yss "length xss * n" c] by simp
qed

lemma map2_same: "map2 f (map g xs) (map h xs) = map (\<lambda>x. f (g x) (h x)) xs"
  by (induction xs) auto

lemma length_linear_row [simp]: "length (linear_row L x) = out_features L"
  by (simp add: linear_row_def)

lemma slice_to_batch:
  assumes "\<forall>r \<in> set rows. length r = w" "s \<le> w"
  shows "slice_dim1 0 (Some s) (batch w rows) = Some (batch s (map (take s) rows))"
  using assms by (simp add: slice_dim1_def batch_def chunks_concat min_def)

lemma slice_from_batch:
  assumes "\<forall>r \<in> set rows. length r = w" "s \<le> w"
  shows "slice_dim1 s None (batch w rows) = Some (batch (w - s) (map (drop s) rows))"
proof -
  have "map (\<lambda>r. take (w - s) (drop s r)) rows = map (drop s) rows"
    using assms by (intro map_cong) auto
  then have "concat (map (\<lambda>r. take (w - s) (drop s r)) rows) = concat (map (drop s) rows)"
    by (rule arg_cong)
  with assms show ?thesis
    by (simp add: slice_dim1_def batch_def chunks_concat min_def)
qed

lemma apply_linear_batch:
  assumes "\<forall>r \<in> set rows. length r = in_features L"
  shows "apply_linear L (batch (in_features L) rows) = Some (batch (out_features L) (map (linear_row L) rows))"
  using assms by (simp add: apply_linear_def batch_def chunks_concat)

lemma apply_activation_batch:
  "apply_module (Activation f) (batch w rows) = Some (batch w (map (map f) rows))"
  by (simp add: batch_def map_concat)

lemma concat_map_concat: "concat (map g (concat xss)) = concat (map (\<lambda>xs. concat (map g xs)) xss)"
  by (induction xss) auto

lemma infer_size_leading:
  assumes "0 < d" "d dvd m"
  shows "infer_size [- 1, int d] m = Some [m div d, d]"
  using assms by (auto simp: infer_size_def Let_def)

lemma infer_size_middle:
  assumes "0 < b" "0 < k"
  shows "infer_size [int b, - 1, int k] (b * n * k) = Some [b, n, k]"
proof -
  have "b * n * k mod (b * k) = 0" by (simp add: mult.assoc mult.left_commute)
  moreover have "b * n * k div (b * k) = n"
    using assms by (simp add: mult.assoc mult.left_commute)
  ultimately show ?thesis
    using assms by (simp add: infer_size_def Let_def)
qed

lemma reshape_neighbors:
  assumes "\<forall>y \<in> set ys. length y = n * d" "0 < d"
  shows "reshape (batch (n * d) ys) [- 1, int d] = Some (batch d (concat (map (chunks n d) ys)))"
proof -
  have "concat (concat (map (chunks n d) ys)) = concat ys"
    using assms(1) by (induction ys) (simp_all add: concat_chunks)
  moreover have "length (concat (map (chunks n d) ys)) = length ys * n"
    by (induction ys) simp_all
  ultimately show ?thesis
    using assms(2) by (simp add: reshape_def numel_def batch_def infer_size_leading mult.assoc)
qed

lemma reshape_back:
  assumes "\<forall>blk \<in> set blocks. length blk = n" "blocks \<noteq> []" "0 < k"
  shows "reshape (batch k (concat blocks)) [int (length blocks), - 1, int k] = Some (batch3 n k blocks)"
proof -
  have "length (concat blocks) = length blocks * n"
    using assms(1) by (rule length_concat_const)
  moreover have "concat (concat blocks) = concat (map concat blocks)"
    by (induction blocks) simp_all
  ultimately show ?thesis
    using assms(2,3) infer_size_middle [of "length blocks" k n]
    by (simp add: reshape_def numel_def batch_def batch3_def mult.assoc)
qed

lemma torch_mean_dim1_batch3:
  assumes "\<forall>blk \<in> set blocks. length blk = n \<and> (\<forall>v \<in> set blk. length v = k)"
  shows "torch_mean_dim1 (batch3 n k blocks) = Some (batch k (map (mean_over_neighbors k) blocks))"
proof -
  have len: "\<forall>xs \<in> set (map concat blocks). length xs = n * k"
    using assms by (auto simp: length_concat_const)
  have "map (\<lambda>blk. map (\<lambda>j. mean_fl (map (\<lambda>v. v ! j) (chunks n k blk))) [0..<k]) (map concat blocks)
        = map (mean_over_neighbors k) blocks"
    using assms by (auto simp: mean_over_neighbors_def chunks_concat)
  with len show ?thesis
    by (simp add: torch_mean_dim1_def batch3_def batch_def chunks_concat del: map_map)
qed

lemma torch_cat_dim1_batch:
  assumes "length xs = length ys" "\<forall>x \<in> set xs. length x = a" "\<forall>y \<in> set ys. length y = b"
  shows "torch_cat_dim1 (batch a xs) (batch b ys) = Some (batch (a + b) (map2 (@) xs ys))"
  using assms by (simp add: torch_cat_dim1_def batch_def chunks_concat)

lemma linear_row_nn_Linear [simp]:
  "linear_row (nn_Linear n_in n_out wb) = fully_connected wb n_in n_out"
  by (rule ext) (simp add: linear_row_def nn_Linear_def fully_connected_def)

lemma nn_Linear_features [simp]:
  "in_features (nn_Linear n_in n_out wb) = n_in"
  "out_features (nn_Linear n_in n_out wb) = n_out"
  by (simp_all add: nn_Linear_def)

lemma length_fully_connected [simp]: "length (fully_connected wb n_in n_out x) = n_out"
  by (simp add: fully_connected_def)

lemma length_mean_over_neighbors [simp]: "length (mean_over_neighbors k es) = k"
  by (simp add: mean_over_neighbors_def)

lemma length_self_embedding [simp]: "length (self_embedding cfg params s x) = hidden_size cfg"
  by (simp add: self_embedding_def)

lemma length_context_embedding [simp]: "length (context_embedding cfg params d k v) = k"
  by (simp add: context_embedding_def)

lemma self_embedding_eta:
  "self_embedding cfg params s =
     (\<lambda>x. map (activation cfg)
       (fully_connected (params 1) (hidden_size cfg) (hidden_size cfg)
          (map (activation cfg) (fully_connected (params 0) s (hidden_size cfg) x))))"
  by (rule ext) (simp add: self_embedding_def)

lemma context_embedding_eta:
  "context_embedding cfg params d k = (\<lambda>v. map (activation cfg) (fully_connected (params 2) d k v))"
  by (rule ext) (simp add: context_embedding_def)

lemma apply_nn_Linear_batch:
  assumes "\<forall>r \<in> set rows. length r = n_in"
  shows "apply_module (Linear (nn_Linear n_in n_out wb)) (batch n_in rows)
         = Some (batch n_out (map (fully_connected wb n_in n_out) rows))"
  using assms apply_linear_batch [of rows "nn_Linear n_in n_out wb"] by simp

lemma self_encoder_batch:
  assumes "\<forall>r \<in> set rows. length r = s"
  shows "apply_sequential
           [Linear (nn_Linear s (hidden_size cfg) (params 0)), nonlinearity cfg,
            Linear (nn_Linear (hidden_size cfg) (hidden_size cfg) (params (Suc 0))), nonlinearity cfg]
           (batch s rows)
         = Some (batch (hidden_size cfg) (map (self_embedding cfg params s) rows))"
  using assms
  by (simp add: apply_nn_Linear_batch apply_activation_batch nonlinearity_def self_embedding_eta
                comp_def del: apply_module.simps)

lemma context_encoder_batch:
  assumes "\<forall>r \<in> set rows. length r = d"
  shows "apply_sequential [Linear (nn_Linear d k (params 2)), nonlinearity cfg] (batch d rows)
         = Some (batch k (map (context_embedding cfg params d k) rows))"
  using assms
  by (simp add: apply_nn_Linear_batch apply_activation_batch nonlinearity_def context_embedding_eta
                comp_def del: apply_module.simps)

lemma probe_is_batch:
  "\<lparr>shape = [Suc 0, n], data = replicate n 0\<rparr> = batch n [replicate n 0]"
  by (simp add: batch_def)

lemma numel_batch [simp]: "numel (batch w rows) = length rows * w"
  by (simp add: numel_def batch_def)

lemma calc_num_elements_self_encoder:
  "calc_num_elements
     [Linear (nn_Linear s (hidden_size cfg) ((params :: nat \<Rightarrow> linear_init) 0)), nonlinearity cfg,
      Linear (nn_Linear (hidden_size cfg) (hidden_size cfg) (params (Suc 0))), nonlinearity cfg] [s]
   = Some (hidden_size cfg)"
  by (simp add: calc_num_elements_def probe_is_batch self_encoder_batch
           del: apply_sequential.simps)

lemma calc_num_elements_context_encoder:
  "calc_num_elements [Linear (nn_Linear d k ((params :: nat \<Rightarrow> linear_init) 2)), nonlinearity cfg] [d]
   = Some k"
  by (simp add: calc_num_elements_def probe_is_batch context_encoder_batch
           del: apply_sequential.simps)

lemma QuadMultiMeanEncoder_init_eq:
  "QuadMultiMeanEncoder_init cfg params a_s a_d a_k =
     (let s = (case a_s of None \<Rightarrow> 18 | Some v \<Rightarrow> v);
          d = (case a_d of None \<Rightarrow> 6 | Some v \<Rightarrow> v);
          k = (case a_k of None \<Rightarrow> 32 | Some v \<Rightarrow> v)
      in Some \<lparr>mean_enc.self_obs_dim = s, neighbor_obs_dim = d, neighbor_hidden_size = k,
            mean_enc.self_encoder =
              [Linear (nn_Linear s (hidden_size cfg) (params 0)), nonlinearity cfg,
               Linear (nn_Linear (hidden_size cfg) (hidden_size cfg) (params 1)), nonlinearity cfg],
            neighbor_encoder = [Linear (nn_Linear d k (params 2)), nonlinearity cfg],
            mean_enc.self_encoder_out_size = hidden_size cfg,
            neighbor_encoder_out_size = k,
            mean_enc.feed_forward = nn_Linear (hidden_size cfg + k) (hidden_size cfg) (params 3)\<rparr>)"
  by (simp add: QuadMultiMeanEncoder_init_def calc_num_elements_self_encoder
        calc_num_elements_context_encoder Let_def del: apply_sequential.simps)

lemma QuadMultiHistogramEncoder_init_eq:
  "QuadMultiHistogramEncoder_init cfg params a_s a_d a_k =
     (let s = (case a_s of None \<Rightarrow> 18 | Some v \<Rightarrow> v);
          d = (case a_d of None \<Rightarrow> 64 | Some v \<Rightarrow> v);
          k = (case a_k of None \<Rightarrow> 64 | Some v \<Rightarrow> v)
      in Some \<lparr>self_obs_dim = s, histogram_bins = d, histogram_hidden_size = k,
            self_encoder =
              [Linear (nn_Linear s (hidden_size cfg) (params 0)), nonlinearity cfg,
               Linear (nn_Linear (hidden_size cfg) (hidden_size cfg) (params 1)), nonlinearity cfg],
            histogram_encoder = [Linear (nn_Linear d k (params 2)), nonlinearity cfg],
            self_encoder_out_size = hidden_size cfg,
            histogram_encoder_out_size = k,
            feed_forward = nn_Linear (hidden_size cfg + k) (hidden_size cfg) (params 3),
            encoder_out_size = hidden_size cfg\<rparr>)"
  by (simp add: QuadMultiHistogramEncoder_init_def calc_num_elements_self_encoder
        calc_num_elements_context_encoder Let_def del: apply_sequential.simps)

lemma mean_forward_explicit:
  fixes params :: "nat \<Rightarrow> linear_init"
  assumes len: "\<forall>r \<in> set rows. length r = s + n * d"
    and "rows \<noteq> []" "0 < d" "0 < k"
  shows "QuadMultiMeanEncoder_forward
           \<lparr>mean_enc.self_obs_dim = s, neighbor_obs_dim = d, neighbor_hidden_size = k,
             mean_enc.self_encoder =
               [Linear (nn_Linear s (hidden_size cfg) (params 0)), nonlinearity cfg,
                Linear (nn_Linear (hidden_size cfg) (hidden_size cfg) (params 1)), nonlinearity cfg],
             neighbor_encoder = [Linear (nn_Linear d k (params 2)), nonlinearity cfg],
             mean_enc.self_encoder_out_size = hidden_size cfg,
             neighbor_encoder_out_size = k,
             mean_enc.feed_forward = nn_Linear (hidden_size cfg + k) (hidden_size cfg) (params 3)\<rparr>
           [''obs'' \<mapsto> batch (s + n * d) rows]
         = Some (batch (hidden_size cfg) (map (mean_encoder_row cfg params s d k) rows))"
proof -
  let ?h = "hidden_size cfg"
  let ?segs = "map (drop s) rows"
  let ?blocks = "map (\<lambda>r. map (context_embedding cfg params d k) (chunks n d (drop s r))) rows"
  have s1: "slice_dim1 0 (Some s) (batch (s + n * d) rows) = Some (batch s (map (take s) rows))"
    using len by (simp add: slice_to_batch)
  have s2: "slice_dim1 s None (batch (s + n * d) rows) = Some (batch (n * d) ?segs)"
    using len slice_from_batch [of rows "s + n * d" s] by simp
  have s3: "apply_sequential
              [Linear (nn_Linear s ?h (params 0)), nonlinearity cfg,
               Linear (nn_Linear ?h ?h (params 1)), nonlinearity cfg]
              (batch s (map (take s) rows))
            = Some (batch ?h (map (\<lambda>r. self_embedding cfg params s (take s r)) rows))"
    using len self_encoder_batch [of "map (take s) rows" s cfg params] by (simp add: comp_def)
  have s4: "reshape (batch (n * d) ?segs) [- 1, int d]
            = Some (batch d (concat (map (chunks n d) ?segs)))"
    using len \<open>0 < d\<close> by (intro reshape_neighbors) auto
  have lenv: "\<forall>v \<in> set (concat (map (chunks n d) ?segs)). length v = d"
  proof
    fix v assume "v \<in> set (concat (map (chunks n d) ?segs))"
    then obtain r where "r \<in> set rows" "v \<in> set (chunks n d (drop s r))" by auto
    moreover from this len have "length (drop s r) = n * d" by simp
    ultimately show "length v = d" by (blast intro: length_in_chunks)
  qed
  have s5: "apply_sequential [Linear (nn_Linear d k (params 2)), nonlinearity cfg]
              (batch d (concat (map (chunks n d) ?segs)))
            = Some (batch k (concat ?blocks))"
    using context_encoder_batch [OF lenv, of k params cfg]
    by (simp add: map_concat comp_def)
  have s6: "reshape (batch k (concat ?blocks)) [int (length rows), - 1, int k]
            = Some (batch3 n k ?blocks)"
    using reshape_back [of ?blocks n k] \<open>rows \<noteq> []\<close> \<open>0 < k\<close> by simp
  have s7: "torch_mean_dim1 (batch3 n k ?blocks)
            = Some (batch k (map (mean_over_neighbors k) ?blocks))"
    by (intro torch_mean_dim1_batch3) auto
  have s8: "torch_cat_dim1 (batch ?h (map (\<lambda>r. self_embedding cfg params s (take s r)) rows))
              (batch k (map (mean_over_neighbors k) ?blocks))
            = Some (batch (?h + k)
                (map (\<lambda>r. self_embedding cfg params s (take s r)
                          @ mean_over_neighbors k
                              (map (context_embedding cfg params d k) (chunks n d (drop s r)))) rows))"
    by (subst torch_cat_dim1_batch) (simp_all add: map2_same comp_def)
  have s9: "apply_linear (nn_Linear (?h + k) ?h (params 3))
              (batch (?h + k)
                (map (\<lambda>r. self_embedding cfg params s (take s r)
                          @ mean_over_neighbors k
                              (map (context_embedding cfg params d k) (chunks n d (drop s r)))) rows))
            = Some (batch ?h
                (map (\<lambda>r. fully_connected (params 3) (?h + k) ?h
                        (self_embedding cfg params s (take s r)
                         @ mean_over_neighbors k
                             (map (context_embedding cfg params d k) (chunks n d (drop s r))))) rows))"
    by (subst apply_linear_batch [of _ "nn_Linear (?h + k) ?h (params 3)", simplified])
       (simp_all add: comp_def)
  have eq: "map (mean_encoder_row cfg params s d k) rows
            = map (\<lambda>r. fully_connected (params 3) (?h + k) ?h
                  (self_embedding cfg params s (take s r)
                   @ mean_over_neighbors k
                       (map (context_embedding cfg params d k) (chunks n d (drop s r))))) rows"
    using len \<open>0 < d\<close> by (intro map_cong) (simp_all add: mean_encoder_row_def)
  have bs: "hd (shape (batch s (map (take s) rows))) = length rows"
    by (simp add: batch_def)
  show ?thesis
    unfolding eq
    by (simp only: QuadMultiMeanEncoder_forward_def fun_upd_same Option.bind.simps
          mean_enc.select_convs Let_def s1 s2 s3 s4 s5 bs s6 s7 s8 s9)
qed

lemma histogram_forward_explicit:
  fixes params :: "nat \<Rightarrow> linear_init"
  assumes len: "\<forall>r \<in> set rows. length r = s + bins"
  shows "QuadMultiHistogramEncoder_forward
           \<lparr>self_obs_dim = s, histogram_bins = bins, histogram_hidden_size = k,
             self_encoder =
               [Linear (nn_Linear s (hidden_size cfg) (params 0)), nonlinearity cfg,
                Linear (nn_Linear (hidden_size cfg) (hidden_size cfg) (params 1)), nonlinearity cfg],
             histogram_encoder = [Linear (nn_Linear bins k (params 2)), nonlinearity cfg],
             self_encoder_out_size = hidden_size cfg,
             histogram_encoder_out_size = k,
             feed_forward = nn_Linear (hidden_size cfg + k) (hidden_size cfg) (params 3),
             encoder_out_size = hidden_size cfg\<rparr>
           [''obs'' \<mapsto> batch (s + bins) rows]
         = Some (batch (hidden_size cfg) (map (histogram_encoder_row cfg params s bins k) rows))"
proof -
  let ?h = "hidden_size cfg"
  have s1: "slice_dim1 0 (Some s) (batch (s + bins) rows) = Some (batch s (map (take s) rows))"
    using len by (simp add: slice_to_batch)
  have s2: "slice_dim1 s None (batch (s + bins) rows) = Some (batch bins (map (drop s) rows))"
    using len slice_from_batch [of rows "s + bins" s] by simp
  have s3: "apply_sequential
              [Linear (nn_Linear s ?h (params 0)), nonlinearity cfg,
               Linear (nn_Linear ?h ?h (params 1)), nonlinearity cfg]
              (batch s (map (take s) rows))
            = Some (batch ?h (map (\<lambda>r. self_embedding cfg params s (take s r)) rows))"
    using len self_encoder_batch [of "map (take s) rows" s cfg params] by (simp add: comp_def)
  have s4: "apply_sequential [Linear (nn_Linear bins k (params 2)), nonlinearity cfg]
              (batch bins (map (drop s) rows))
            = Some (batch k (map (\<lambda>r. context_embedding cfg params bins k (drop s r)) rows))"
    using len context_encoder_batch [of "map (drop s) rows" bins k params cfg]
    by (simp add: comp_def)
  have s5: "torch_cat_dim1 (batch ?h (map (\<lambda>r. self_embedding cfg params s (take s r)) rows))
              (batch k (map (\<lambda>r. context_embedding cfg params bins k (drop s r)) rows))
            = Some (batch (?h + k)
                (map (\<lambda>r. self_embedding cfg params s (take s r)
                          @ context_embedding cfg params bins k (drop s r)) rows))"
    by (subst torch_cat_dim1_batch) (simp_all add: map2_same comp_def)
  have s6: "apply_linear (nn_Linear (?h + k) ?h (params 3))
              (batch (?h + k)
                (map (\<lambda>r. self_embedding cfg params s (take s r)
                          @ context_embedding cfg params bins k (drop s r)) rows))
            = Some (batch ?h
                (map (\<lambda>r. fully_connected (params 3) (?h + k) ?h
                        (self_embedding cfg params s (take s r)
                         @ context_embedding cfg params bins k (drop s r))) rows))"
    by (subst apply_linear_batch [of _ "nn_Linear (?h + k) ?h (params 3)", simplified])
       (simp_all add: comp_def)
  have eq: "histogram_encoder_row cfg params s bins k
            = (\<lambda>r. fully_connected (params 3) (?h + k) ?h
                  (self_embedding cfg params s (take s r)
                   @ context_embedding cfg params bins k (drop s r)))"
    by (rule ext) (simp add: histogram_encoder_row_def)
  show ?thesis
    unfolding eq
    by (simp only: QuadMultiHistogramEncoder_forward_def fun_upd_same Option.bind.simps
          hist_enc.select_convs Let_def s1 s2 s3 s4 s5 s6)
qed

lemma mean_forward_batch:
  assumes "QuadMultiMeanEncoder_init cfg params a_s a_d a_k = Some enc"
    and "\<forall>r \<in> set rows. length r = mean_enc.self_obs_dim enc + n * neighbor_obs_dim enc"
    and "rows \<noteq> []" "0 < neighbor_obs_dim enc" "0 < neighbor_hidden_size enc"
  shows "QuadMultiMeanEncoder_forward enc
           [''obs'' \<mapsto> batch (mean_enc.self_obs_dim enc + n * neighbor_obs_dim enc) rows]
         = Some (batch (hidden_size cfg)
             (map (mean_encoder_row cfg params (mean_enc.self_obs_dim enc) (neighbor_obs_dim enc)
                     (neighbor_hidden_size enc)) rows))"
  using assms mean_forward_explicit [of rows _ n _ _ cfg params]
  by (auto simp: QuadMultiMeanEncoder_init_eq Let_def)

lemma histogram_forward_batch:
  assumes "QuadMultiHistogramEncoder_init cfg params a_s a_b a_k = Some enc"
    and "\<forall>r \<in> set rows. length r = self_obs_dim enc + histogram_bins enc"
  shows "QuadMultiHistogramEncoder_forward enc
           [''obs'' \<mapsto> batch (self_obs_dim enc + histogram_bins enc) rows]
         = Some (batch (hidden_size cfg)
             (map (histogram_encoder_row cfg params (self_obs_dim enc) (histogram_bins enc)
                     (histogram_hidden_size enc)) rows))"
  using assms histogram_forward_explicit [of rows _ _ _ cfg params]
  by (auto simp: QuadMultiHistogramEncoder_init_eq Let_def)

text \<open>Shapes, whatever the data.\<close>

lemma slice_dim1_shape:
  assumes "slice_dim1 lo stop t = Some y" "shape t = [b, w]"
  shows "shape y = [b, (case stop of None \<Rightarrow> w | Some e \<Rightarrow> min e w) - min lo w]"
  using assms by (auto simp: slice_dim1_def Let_def)

lemma apply_linear_shape:
  assumes "apply_linear L t = Some y" "shape t = [r, c]"
  shows "c = in_features L \<and> shape y = [r, out_features L]"
  using assms by (auto simp: apply_linear_def Let_def split: if_splits)

lemma apply_activation_shape:
  assumes "apply_module (Activation f) t = Some y"
  shows "shape y = shape t"
  using assms by auto

lemma self_encoder_shape:
  assumes "apply_sequential
             [Linear (nn_Linear s h p0), nonlinearity cfg, Linear (nn_Linear h h p1), nonlinearity cfg] t
           = Some y"
    and "shape t = [r, c]"
  shows "c = s \<and> shape y = [r, h]"
  using assms
  by (auto simp: nonlinearity_def split: Option.bind_splits dest!: apply_linear_shape)

lemma context_encoder_shape:
  assumes "apply_sequential [Linear (nn_Linear d k p2), nonlinearity cfg] t = Some y"
    and "shape t = [r, c]"
  shows "c = d \<and> shape y = [r, k]"
  using assms
  by (auto simp: nonlinearity_def split: Option.bind_splits dest!: apply_linear_shape)

lemma infer_size_leading_Some:
  assumes "infer_size [- 1, int d] m = Some sh"
  shows "0 < d \<and> d dvd m \<and> sh = [m div d, d]"
  using assms by (auto simp: infer_size_def Let_def split: if_splits)

lemma infer_size_middle_Some:
  assumes "infer_size [int b, - 1, int k] m = Some sh"
  shows "0 < b \<and> 0 < k \<and> b * k dvd m \<and> sh = [b, m div (b * k), k]"
  using assms by (auto simp: infer_size_def Let_def split: if_splits)

lemma reshape_shape:
  assumes "reshape t sz = Some y"
  shows "infer_size sz (numel t) = Some (shape y)"
  using assms by (auto simp: reshape_def split: option.splits)

lemma dvd_cancel_batch:
  fixes b d m :: nat
  assumes "0 < b" "0 < d" "d dvd b * m" "b dvd (b * m) div d"
  shows "d dvd m"
proof -
  from assms(4) obtain q where q: "(b * m) div d = b * q" by (auto elim: dvdE)
  from assms(3) have "b * m = d * ((b * m) div d)" by simp
  with q have "b * m = b * (d * q)" by (simp add: mult.left_commute)
  with \<open>0 < b\<close> have "m = d * q" by simp
  then show ?thesis by simp
qed

lemma mean_forward_Some_explicit:
  assumes fw: "QuadMultiMeanEncoder_forward
           \<lparr>mean_enc.self_obs_dim = s, neighbor_obs_dim = d, neighbor_hidden_size = k,
             mean_enc.self_encoder =
               [Linear (nn_Linear s h p0), nonlinearity cfg,
                Linear (nn_Linear h h p1), nonlinearity cfg],
             neighbor_encoder = [Linear (nn_Linear d k p2), nonlinearity cfg],
             mean_enc.self_encoder_out_size = h',
             neighbor_encoder_out_size = k',
             mean_enc.feed_forward = ff\<rparr>
           [''obs'' \<mapsto> t] = Some out"
    and sh: "shape t = [b, w]"
  shows "0 < b \<and> 0 < d \<and> 0 < k \<and> s \<le> w \<and> d dvd (w - s)"
proof -
  from fw obtain obs_self obs_nb self_embed nb2 emb nb3 where
    1: "slice_dim1 0 (Some s) t = Some obs_self" and
    2: "slice_dim1 s None t = Some obs_nb" and
    3: "apply_sequential [Linear (nn_Linear s h p0), nonlinearity cfg,
                Linear (nn_Linear h h p1), nonlinearity cfg] obs_self = Some self_embed" and
    4: "reshape obs_nb [- 1, int d] = Some nb2" and
    5: "apply_sequential [Linear (nn_Linear d k p2), nonlinearity cfg] nb2 = Some emb" and
    6: "reshape emb [int (hd (shape obs_self)), - 1, int k] = Some nb3"
    by (auto simp: QuadMultiMeanEncoder_forward_def Let_def split: Option.bind_splits
             simp del: apply_sequential.simps)
  from slice_dim1_shape [OF 1 sh] have sh1: "shape obs_self = [b, min s w]" by simp
  from self_encoder_shape [OF 3 sh1] have sw: "s \<le> w" by (simp add: min_def split: if_splits)
  from slice_dim1_shape [OF 2 sh] sw have sh2: "shape obs_nb = [b, w - s]" by (simp add: min_def)
  from reshape_shape [OF 4] sh2 have "infer_size [- 1, int d] (b * (w - s)) = Some (shape nb2)"
    by (simp add: numel_def)
  from infer_size_leading_Some [OF this]
  have d: "0 < d" "d dvd b * (w - s)" and sh4: "shape nb2 = [b * (w - s) div d, d]" by auto
  from context_encoder_shape [OF 5 sh4] have sh5: "shape emb = [b * (w - s) div d, k]" by simp
  from reshape_shape [OF 6] sh5 sh1
  have "infer_size [int b, - 1, int k] (b * (w - s) div d * k) = Some (shape nb3)"
    by (simp add: numel_def)
  from infer_size_middle_Some [OF this]
  have b: "0 < b" "0 < k" and dv: "b * k dvd b * (w - s) div d * k" by auto
  from dv \<open>0 < k\<close> have "b dvd b * (w - s) div d" by simp
  with b d have "d dvd (w - s)" by (intro dvd_cancel_batch [of b d "w - s"])
  with b d sw show ?thesis by simp
qed

lemma mean_forward_Some_imp:
  assumes "QuadMultiMeanEncoder_init cfg params a_s a_d a_k = Some enc"
    and "QuadMultiMeanEncoder_forward enc [''obs'' \<mapsto> t] = Some out"
    and "shape t = [b, w]"
  shows "0 < b \<and> 0 < neighbor_obs_dim enc \<and> 0 < neighbor_hidden_size enc
         \<and> mean_enc.self_obs_dim enc \<le> w
         \<and> neighbor_obs_dim enc dvd (w - mean_enc.self_obs_dim enc)"
proof -
  define s where "s = (case a_s of None \<Rightarrow> 18 | Some v \<Rightarrow> v)"
  define d where "d = (case a_d of None \<Rightarrow> 6 | Some v \<Rightarrow> v)"
  define k where "k = (case a_k of None \<Rightarrow> 32 | Some v \<Rightarrow> v)"
  from assms(1) have enc: "enc =
      \<lparr>mean_enc.self_obs_dim = s, neighbor_obs_dim = d, neighbor_hidden_size = k,
        mean_enc.self_encoder =
          [Linear (nn_Linear s (hidden_size cfg) (params 0)), nonlinearity cfg,
           Linear (nn_Linear (hidden_size cfg) (hidden_size cfg) (params 1)), nonlinearity cfg],
        neighbor_encoder = [Linear (nn_Linear d k (params 2)), nonlinearity cfg],
        mean_enc.self_encoder_out_size = hidden_size cfg,
        neighbor_encoder_out_size = k,
        mean_enc.feed_forward = nn_Linear (hidden_size cfg + k) (hidden_size cfg) (params 3)\<rparr>"
    by (simp add: QuadMultiMeanEncoder_init_eq Let_def s_def d_def k_def)
  from mean_forward_Some_explicit [OF assms(2) [unfolded enc] assms(3)]
  show ?thesis by (simp add: enc)
qed

lemma spec_mean_encoder_rows:
  assumes len: "\<forall>r \<in> set rows. length r = s + n * d" and "rows \<noteq> []" "0 < d"
  shows "spec_mean_encoder cfg params s d k rows = map (mean_encoder_row cfg params s d k) rows"
proof -
  let ?segs = "map (drop s) rows"
  let ?g = "context_embedding cfg params d k"
  have lseg: "\<forall>x \<in> set ?segs. length x = n * d"
    using len by auto
  have l1: "length (concat ?segs) = length rows * n * d"
    using length_concat_const [OF lseg] by (simp add: mult.assoc)
  then have l2: "length (concat ?segs) div d = length rows * n"
    using \<open>0 < d\<close> by simp
  have c1: "chunks (length rows * n) d (concat ?segs) = concat (map (chunks n d) ?segs)"
    using chunks_concat_concat [OF lseg] by simp
  have l3: "length (concat (map (chunks n d) ?segs)) = length rows * n"
    by (induction rows) simp_all
  then have l4: "length (concat (map (chunks n d) ?segs)) div length rows = n"
    using \<open>rows \<noteq> []\<close> by simp
  have c2: "chunks (length rows) n (map ?g (concat (map (chunks n d) ?segs)))
            = map (\<lambda>r. map ?g (chunks n d (drop s r))) rows"
    using chunks_concat [of "map (\<lambda>r. map ?g (chunks n d (drop s r))) rows" "length rows" n]
    by (simp add: map_concat comp_def)
  have rowdiv: "\<forall>r \<in> set rows. (length r - s) div d = n"
    using len \<open>0 < d\<close> by simp
  have "spec_mean_encoder cfg params s d k rows
        = map2 (\<lambda>a m. fully_connected (params 3) (hidden_size cfg + k) (hidden_size cfg) (a @ m))
            (map (\<lambda>r. self_embedding cfg params s (take s r)) rows)
            (map (\<lambda>r. mean_over_neighbors k (map ?g (chunks n d (drop s r)))) rows)"
    by (simp only: spec_mean_encoder_def Let_def l2 c1 length_map l4 c2) (simp add: comp_def)
  also have "\<dots> = map (\<lambda>r. fully_connected (params 3) (hidden_size cfg + k) (hidden_size cfg)
                  (self_embedding cfg params s (take s r)
                   @ mean_over_neighbors k (map ?g (chunks n d (drop s r))))) rows"
    by (induction rows) simp_all
  also have "\<dots> = map (mean_encoder_row cfg params s d k) rows"
    using rowdiv by (intro map_cong) (simp_all add: mean_encoder_row_def)
  finally show ?thesis .
qed

lemma plus_fl_simps [simp]:
  "NaN + x = NaN" "x + NaN = NaN" "Fin a + Fin b = Fin (a + b)"
  by (simp_all add: plus_fl_def split: fl.splits)

lemma times_fl_simps [simp]:
  "NaN * x = NaN" "x * NaN = NaN" "Fin a * Fin b = Fin (a * b)"
  by (simp_all add: times_fl_def split: fl.splits)

lemma sum_list_NaN: "NaN \<in> set xs \<Longrightarrow> sum_list xs = NaN"
  by (induction xs) auto

lemma mean_fl_Nil [simp]: "mean_fl [] = NaN"
  by (simp add: mean_fl_def)

lemma mean_over_neighbors_Nil: "mean_over_neighbors k [] = replicate k NaN"
  by (simp add: mean_over_neighbors_def map_replicate_const)

lemma fully_connected_NaN:
  assumes "i < n_in" "x ! i = NaN"
  shows "fully_connected wb n_in n_out x = replicate n_out NaN"
proof -
  have "sum_list (map (\<lambda>i. x ! i * fst wb j i) [0..<n_in]) = NaN" for j
  proof (rule sum_list_NaN)
    from assms have "x ! i * fst wb j i = NaN" by simp
    moreover from assms(1) have "i \<in> set [0..<n_in]" by simp
    ultimately show "NaN \<in> set (map (\<lambda>i. x ! i * fst wb j i) [0..<n_in])"
      by (metis (no_types, lifting) image_eqI set_map)
  qed
  then show ?thesis
    by (simp add: fully_connected_def map_replicate_const)
qed

lemma mean_encoder_row_no_neighbors:
  assumes "length r = s" "0 < k"
  shows "mean_encoder_row cfg params s d k r = replicate (hidden_size cfg) NaN"
proof -
  let ?x = "self_embedding cfg params s (take s r) @ replicate k NaN"
  have "?x ! hidden_size cfg = NaN"
    using assms(2) by (simp add: nth_append)
  moreover have "hidden_size cfg < hidden_size cfg + k" using assms(2) by simp
  ultimately have "fully_connected (params 3) (hidden_size cfg + k) (hidden_size cfg) ?x
                   = replicate (hidden_size cfg) NaN"
    by (rule fully_connected_NaN [rotated])
  with assms(1) show ?thesis
    by (simp add: mean_encoder_row_def mean_over_neighbors_Nil)
qed

lemma shape_batch [simp]: "shape (batch w rows) = [length rows, w]"
  by (simp add: batch_def)

lemma data_batch [simp]: "data (batch w rows) = concat rows"
  by (simp add: batch_def)

lemma shape_batch3 [simp]: "shape (batch3 n k blocks) = [length blocks, n, k]"
  by (simp add: batch3_def)

lemma forward_after_mean:
  "QuadMultiMeanEncoder_forward self obs_dict =
     do {
       (self_embed, neighbor_embeds) \<leftarrow> QuadMultiMeanEncoder_forward_before_mean self obs_dict;
       mean_embed \<leftarrow> torch_mean_dim1 neighbor_embeds;
       embeddings \<leftarrow> torch_cat_dim1 self_embed mean_embed;
       out \<leftarrow> apply_linear (mean_enc.feed_forward self) embeddings;
       Some out
     }"
  by (simp add: QuadMultiMeanEncoder_forward_def QuadMultiMeanEncoder_forward_before_mean_def Let_def)

lemma before_mean_explicit:
  fixes params :: "nat \<Rightarrow> linear_init"
  assumes len: "\<forall>r \<in> set rows. length r = s + n * d"
    and "rows \<noteq> []" "0 < d" "0 < k"
  shows "QuadMultiMeanEncoder_forward_before_mean
           \<lparr>mean_enc.self_obs_dim = s, neighbor_obs_dim = d, neighbor_hidden_size = k,
             mean_enc.self_encoder =
               [Linear (nn_Linear s (hidden_size cfg) (params 0)), nonlinearity cfg,
                Linear (nn_Linear (hidden_size cfg) (hidden_size cfg) (params 1)), nonlinearity cfg],
             neighbor_encoder = [Linear (nn_Linear d k (params 2)), nonlinearity cfg],
             mean_enc.self_encoder_out_size = hidden_size cfg,
             neighbor_encoder_out_size = k,
             mean_enc.feed_forward = nn_Linear (hidden_size cfg + k) (hidden_size cfg) (params 3)\<rparr>
           [''obs'' \<mapsto> batch (s + n * d) rows]
         = Some (batch (hidden_size cfg) (map (\<lambda>r. self_embedding cfg params s (take s r)) rows),
                 batch3 n k
                   (map (\<lambda>r. map (context_embedding cfg params d k) (chunks n d (drop s r))) rows))"
proof -
  let ?h = "hidden_size cfg"
  let ?segs = "map (drop s) rows"
  let ?blocks = "map (\<lambda>r. map (context_embedding cfg params d k) (chunks n d (drop s r))) rows"
  have s1: "slice_dim1 0 (Some s) (batch (s + n * d) rows) = Some (batch s (map (take s) rows))"
    using len by (simp add: slice_to_batch)
  have s2: "slice_dim1 s None (batch (s + n * d) rows) = Some (batch (n * d) ?segs)"
    using len slice_from_batch [of rows "s + n * d" s] by simp
  have s3: "apply_sequential
              [Linear (nn_Linear s ?h (params 0)), nonlinearity cfg,
               Linear (nn_Linear ?h ?h (params 1)), nonlinearity cfg]
              (batch s (map (take s) rows))
            = Some (batch ?h (map (\<lambda>r. self_embedding cfg params s (take s r)) rows))"
    using len self_encoder_batch [of "map (take s) rows" s cfg params] by (simp add: comp_def)
  have s4: "reshape (batch (n * d) ?segs) [- 1, int d]
            = Some (batch d (concat (map (chunks n d) ?segs)))"
    using len \<open>0 < d\<close> by (intro reshape_neighbors) auto
  have lenv: "\<forall>v \<in> set (concat (map (chunks n d) ?segs)). length v = d"
  proof
    fix v assume "v \<in> set (concat (map (chunks n d) ?segs))"
    then obtain r where "r \<in> set rows" "v \<in> set (chunks n d (drop s r))" by auto
    moreover from this len have "length (drop s r) = n * d" by simp
    ultimately show "length v = d" by (blast intro: length_in_chunks)
  qed
  have s5: "apply_sequential [Linear (nn_Linear d k (params 2)), nonlinearity cfg]
              (batch d (concat (map (chunks n d) ?segs)))
            = Some (batch k (concat ?blocks))"
    using context_encoder_batch [OF lenv, of k params cfg]
    by (simp add: map_concat comp_def)
  have s6: "reshape (batch k (concat ?blocks)) [int (length rows), - 1, int k]
            = Some (batch3 n k ?blocks)"
    using reshape_back [of ?blocks n k] \<open>rows \<noteq> []\<close> \<open>0 < k\<close> by simp
  have bs: "hd (shape (batch s (map (take s) rows))) = length rows"
    by (simp add: batch_def)
  show ?thesis
    by (simp only: QuadMultiMeanEncoder_forward_before_mean_def fun_upd_same Option.bind.simps
          mean_enc.select_convs Let_def s1 s2 s3 s4 s5 bs s6)
qed

lemma before_mean_batch:
  assumes "QuadMultiMeanEncoder_init cfg params a_s a_d a_k = Some enc"
    and "\<forall>r \<in> set rows. length r = mean_enc.self_obs_dim enc + n * neighbor_obs_dim enc"
    and "rows \<noteq> []" "0 < neighbor_obs_dim enc" "0 < neighbor_hidden_size enc"
  shows "\<exists>self_embed neighbor_embeds.
           QuadMultiMeanEncoder_forward_before_mean enc
             [''obs'' \<mapsto> batch (mean_enc.self_obs_dim enc + n * neighbor_obs_dim enc) rows]
           = Some (self_embed, neighbor_embeds)
         \<and> shape neighbor_embeds = [length rows, n, neighbor_hidden_size enc]"
  using assms before_mean_explicit [of rows _ n _ _ cfg params]
  by (auto simp: QuadMultiMeanEncoder_init_eq Let_def)

lemma example_mean_encoder:
  obtains enc where
    "QuadMultiMeanEncoder_init example_cfg example_params (Some 1) (Some 2) (Some 2) = Some enc"
    "mean_enc.self_obs_dim enc = 1" "neighbor_obs_dim enc = 2" "neighbor_hidden_size enc = 2"
  by (simp add: QuadMultiMeanEncoder_init_eq Let_def)

lemma example_histogram_encoder:
  obtains enc where
    "QuadMultiHistogramEncoder_init example_cfg example_params (Some 1) (Some 2) (Some 2) = Some enc"
    "self_obs_dim enc = 1" "histogram_bins enc = 2" "histogram_hidden_size enc = 2"
  by (simp add: QuadMultiHistogramEncoder_init_eq Let_def)

lemma example_mean_forward:
  "QuadMultiMeanEncoder_init example_cfg example_params (Some 1) (Some 2) (Some 2)
     \<bind> (\<lambda>enc. QuadMultiMeanEncoder_forward enc
            [''obs'' \<mapsto> batch 5 [[Fin 1, Fin 2, Fin 3, Fin 4, Fin 5],
                                   [Fin 7, Fin 8, Fin 9, Fin 0, Fin 6]]])
   = Some \<lparr>shape = [2, 2], data = [Fin 7481, Fin 8917, Fin (443163 / 2), Fin 279828]\<rparr>"
  by code_simp

section \<open>Properties of the encoders\<close>

text \<open>
  Claim C8. The defaults of the constructors: a \<open>QuadMultiMeanEncoder\<close> built without
  \<open>self_obs_dim\<close> has a self segment of length 18, and one built without
  \<open>neighbor_obs_dim\<close> takes neighbour vectors of length 6; a
  \<open>QuadMultiHistogramEncoder\<close> built without \<open>self_obs_dim\<close> has a self segment of
  length 18, and one built without \<open>histogram_bins\<close> a histogram of 64 bins. Both
  constructors return for all arguments.
\<close>

theorem default_constructor_parameters:
  "(\<exists>enc. QuadMultiMeanEncoder_init cfg params None a_d a_k = Some enc
          \<and> mean_enc.self_obs_dim enc = 18)
   \<and> (\<exists>enc. QuadMultiMeanEncoder_init cfg params a_s None a_k = Some enc
          \<and> neighbor_obs_dim enc = 6)
   \<and> (\<exists>enc. QuadMultiHistogramEncoder_init cfg params None a_b a_k = Some enc
          \<and> self_obs_dim enc = 18)
   \<and> (\<exists>enc. QuadMultiHistogramEncoder_init cfg params a_s None a_k = Some enc
          \<and> histogram_bins enc = 64)"
  by (simp add: QuadMultiMeanEncoder_init_eq QuadMultiHistogramEncoder_init_eq Let_def)

text \<open>
  Claim C7. Every \<open>QuadMultiHistogramEncoder\<close> the constructor returns has the
  attribute \<open>encoder_out_size\<close>, equal to \<open>cfg.hidden_size\<close>, which is also the
  output width of its final fully-connected layer.
\<close>

theorem histogram_encoder_out_size:
  "\<exists>enc. QuadMultiHistogramEncoder_init cfg params a_s a_b a_k = Some enc
         \<and> encoder_out_size enc = hidden_size cfg
         \<and> out_features (feed_forward enc) = hidden_size cfg"
  by (simp add: QuadMultiHistogramEncoder_init_eq Let_def)

text \<open>
  Claim C6. On a non-empty batch of observation vectors of width
  \<open>self_obs_dim + n * neighbor_obs_dim\<close>, for an encoder built with positive
  \<open>neighbor_obs_dim\<close> and \<open>neighbor_hidden_size\<close>, \<open>forward\<close> returns the batch
  that the pipeline of the specification computes: the two-layer network on the self
  segments, one layer on the neighbour vectors, the mean over the neighbours, and the
  final layer on the concatenation, with the layers the constructor built.
\<close>

theorem mean_encoder_forward_is_pipeline:
  assumes "QuadMultiMeanEncoder_init cfg params a_s a_d a_k = Some enc"
    and "\<forall>r \<in> set rows. length r = mean_enc.self_obs_dim enc + n * neighbor_obs_dim enc"
    and "rows \<noteq> []" "0 < neighbor_obs_dim enc" "0 < neighbor_hidden_size enc"
  shows "QuadMultiMeanEncoder_forward enc
           [''obs'' \<mapsto> batch (mean_enc.self_obs_dim enc + n * neighbor_obs_dim enc) rows]
         = Some (batch (hidden_size cfg)
             (spec_mean_encoder cfg params (mean_enc.self_obs_dim enc) (neighbor_obs_dim enc)
                (neighbor_hidden_size enc) rows))"
  using mean_forward_batch [OF assms] spec_mean_encoder_rows [OF assms(2,3,4)]
  by simp

theorem mean_encoder_forward_is_pipeline_witness:
  "\<exists>enc. QuadMultiMeanEncoder_init example_cfg example_params (Some 1) (Some 2) (Some 2) = Some enc
     \<and> QuadMultiMeanEncoder_forward enc
          [''obs'' \<mapsto> batch 5 [[Fin 1, Fin 2, Fin 3, Fin 4, Fin 5],
                                 [Fin 7, Fin 8, Fin 9, Fin 0, Fin 6]]]
       = Some (batch 2 (spec_mean_encoder example_cfg example_params 1 2 2
                 [[Fin 1, Fin 2, Fin 3, Fin 4, Fin 5], [Fin 7, Fin 8, Fin 9, Fin 0, Fin 6]]))
     \<and> spec_mean_encoder example_cfg example_params 1 2 2
          [[Fin 1, Fin 2, Fin 3, Fin 4, Fin 5], [Fin 7, Fin 8, Fin 9, Fin 0, Fin 6]]
       = [[Fin 7481, Fin 8917], [Fin (443163 / 2), Fin 279828]]"
proof -
  obtain enc where
    i: "QuadMultiMeanEncoder_init example_cfg example_params (Some 1) (Some 2) (Some 2) = Some enc"
    and f: "mean_enc.self_obs_dim enc = 1" "neighbor_obs_dim enc = 2" "neighbor_hidden_size enc = 2"
    by (rule example_mean_encoder)
  from mean_encoder_forward_is_pipeline
         [OF i, of "[[Fin 1, Fin 2, Fin 3, Fin 4, Fin 5], [Fin 7, Fin 8, Fin 9, Fin 0, Fin 6]]" 2]
  have "QuadMultiMeanEncoder_forward enc
          [''obs'' \<mapsto> batch 5 [[Fin 1, Fin 2, Fin 3, Fin 4, Fin 5],
                                 [Fin 7, Fin 8, Fin 9, Fin 0, Fin 6]]]
       = Some (batch 2 (spec_mean_encoder example_cfg example_params 1 2 2
                 [[Fin 1, Fin 2, Fin 3, Fin 4, Fin 5], [Fin 7, Fin 8, Fin 9, Fin 0, Fin 6]]))"
    by (simp add: f example_cfg_def)
  moreover have "spec_mean_encoder example_cfg example_params 1 2 2
          [[Fin 1, Fin 2, Fin 3, Fin 4, Fin 5], [Fin 7, Fin 8, Fin 9, Fin 0, Fin 6]]
       = [[Fin 7481, Fin 8917], [Fin (443163 / 2), Fin 279828]]"
    by code_simp
  ultimately show ?thesis using i by blast
qed

text \<open>
  Claim C5. For a valid batch of \<open>B\<close> observation vectors both encoders return a
  tensor of shape \<open>(B, cfg.hidden_size)\<close>. For the mean-embedding encoder a valid
  batch is a non-empty batch of vectors of width \<open>self_obs_dim + n * neighbor_obs_dim\<close>
  (any number \<open>n\<close> of neighbours), for an encoder built with positive
  \<open>neighbor_obs_dim\<close> and \<open>neighbor_hidden_size\<close>; for the histogram encoder it is any
  batch of vectors of width \<open>self_obs_dim + histogram_bins\<close>.
\<close>

theorem encoders_output_shape:
  "(QuadMultiMeanEncoder_init cfg params a_s a_d a_k = Some enc
      \<and> (\<forall>r \<in> set rows. length r = mean_enc.self_obs_dim enc + n * neighbor_obs_dim enc)
      \<and> rows \<noteq> [] \<and> 0 < neighbor_obs_dim enc \<and> 0 < neighbor_hidden_size enc
    \<longrightarrow> (\<exists>out. QuadMultiMeanEncoder_forward enc
                  [''obs'' \<mapsto> batch (mean_enc.self_obs_dim enc + n * neighbor_obs_dim enc) rows]
                = Some out
              \<and> shape out = [length rows, hidden_size cfg]))
   \<and> (QuadMultiHistogramEncoder_init cfg' params' b_s b_b b_k = Some henc
      \<and> (\<forall>r \<in> set hrows. length r = self_obs_dim henc + histogram_bins henc)
    \<longrightarrow> (\<exists>out. QuadMultiHistogramEncoder_forward henc
                  [''obs'' \<mapsto> batch (self_obs_dim henc + histogram_bins henc) hrows]
                = Some out
              \<and> shape out = [length hrows, hidden_size cfg']))"
  by (auto simp: mean_forward_batch histogram_forward_batch)

theorem encoders_output_shape_witness:
  "\<exists>enc henc.
     QuadMultiMeanEncoder_init example_cfg example_params (Some 1) (Some 2) (Some 2) = Some enc
     \<and> QuadMultiHistogramEncoder_init example_cfg example_params (Some 1) (Some 2) (Some 2) = Some henc
     \<and> (\<exists>out. QuadMultiMeanEncoder_forward enc
                 [''obs'' \<mapsto> batch 5 [[Fin 1, Fin 2, Fin 3, Fin 4, Fin 5],
                                        [Fin 7, Fin 8, Fin 9, Fin 0, Fin 6]]] = Some out
              \<and> shape out = [2, 2])
     \<and> (\<exists>out. QuadMultiHistogramEncoder_forward henc
                 [''obs'' \<mapsto> batch 3 [[Fin 1, Fin 2, Fin 3], [Fin 7, Fin 8, Fin 9]]] = Some out
              \<and> shape out = [2, 2])"
proof -
  obtain enc where
    i: "QuadMultiMeanEncoder_init example_cfg example_params (Some 1) (Some 2) (Some 2) = Some enc"
    and f: "mean_enc.self_obs_dim enc = 1" "neighbor_obs_dim enc = 2" "neighbor_hidden_size enc = 2"
    by (rule example_mean_encoder)
  obtain henc where
    j: "QuadMultiHistogramEncoder_init example_cfg example_params (Some 1) (Some 2) (Some 2) = Some henc"
    and g: "self_obs_dim henc = 1" "histogram_bins henc = 2"
    by (rule example_histogram_encoder)
  have hs: "hidden_size example_cfg = 2"
    by (simp add: example_cfg_def)
  from encoders_output_shape
         [of example_cfg example_params "Some 1" "Some 2" "Some 2" enc
             "[[Fin 1, Fin 2, Fin 3, Fin 4, Fin 5], [Fin 7, Fin 8, Fin 9, Fin 0, Fin 6]]" 2
             example_cfg example_params "Some 1" "Some 2" "Some 2" henc
             "[[Fin 1, Fin 2, Fin 3], [Fin 7, Fin 8, Fin 9]]"]
  have "(\<exists>out. QuadMultiMeanEncoder_forward enc
                 [''obs'' \<mapsto> batch 5 [[Fin 1, Fin 2, Fin 3, Fin 4, Fin 5],
                                        [Fin 7, Fin 8, Fin 9, Fin 0, Fin 6]]] = Some out
              \<and> shape out = [2, 2])
     \<and> (\<exists>out. QuadMultiHistogramEncoder_forward henc
                 [''obs'' \<mapsto> batch 3 [[Fin 1, Fin 2, Fin 3], [Fin 7, Fin 8, Fin 9]]] = Some out
              \<and> shape out = [2, 2])"
    using i j f g hs by (simp add: numeral_2_eq_2 [symmetric] numeral_3_eq_3 [symmetric])
  with i j show ?thesis by blast
qed

text \<open>
  Claim C9, as it stands, fails on an empty batch: for the encoder built with the
  defaults (self segment 18, neighbour vectors 6) and an empty batch of width 24, the
  neighbour segment has length 6, a positive multiple of 6, and yet \<open>forward\<close> raises
  (the second \<open>reshape\<close> has to infer \<open>-1\<close> next to a batch size of 0, which the
  library refuses as ambiguous).
\<close>

theorem mean_forward_precondition_counterexample:
  "QuadMultiMeanEncoder_init example_cfg example_params None None None
     \<bind> (\<lambda>enc. QuadMultiMeanEncoder_forward enc [''obs'' \<mapsto> batch 24 []]) = None
   \<and> map_option mean_enc.self_obs_dim
        (QuadMultiMeanEncoder_init example_cfg example_params None None None) = Some 18
   \<and> map_option neighbor_obs_dim
        (QuadMultiMeanEncoder_init example_cfg example_params None None None) = Some 6
   \<and> (18 :: nat) < 24 \<and> (6 :: nat) dvd 24 - 18"
  by code_simp

text \<open>
  Claim C9, amended. Take a batch of vectors of width \<open>w\<close>. \<open>forward\<close> is its
  statements up to the second \<open>reshape\<close>, followed by the mean over the second axis
  of \<open>neighbor_embeds\<close>, the concatenation and the last layer. On an empty batch, or
  for an encoder built with \<open>neighbor_hidden_size = 0\<close>, \<open>forward\<close> raises whatever
  the width. For a non-empty batch and a positive \<open>neighbor_hidden_size\<close>:

  \<^item> \<open>forward\<close> returns exactly when \<open>w - self_obs_dim\<close> is a multiple (zero
    included) of a positive \<open>neighbor_obs_dim\<close>, and raises otherwise;

  \<^item> when the neighbour segment is empty (and \<open>neighbor_obs_dim\<close> is positive), the
    second axis of \<open>neighbor_embeds\<close> has length 0: the mean is taken over no
    neighbour, and \<open>forward\<close> returns a tensor whose every entry is \<open>NaN\<close>;

  \<^item> when the neighbour segment is a positive multiple of \<open>neighbor_obs_dim\<close>,
    \<open>forward\<close> returns and the second axis of \<open>neighbor_embeds\<close> has the positive
    length \<open>(w - self_obs_dim) div neighbor_obs_dim\<close>: the mean is taken over at
    least one neighbour and divides by a positive count.

  Nothing is said of the values that \<open>forward\<close> returns in the last case.
\<close>

theorem mean_forward_precondition:
  assumes init: "QuadMultiMeanEncoder_init cfg params a_s a_d a_k = Some enc"
    and len: "\<forall>r \<in> set rows. length r = w"
  shows "QuadMultiMeanEncoder_forward enc [''obs'' \<mapsto> batch w rows]
           = do {
               (self_embed, neighbor_embeds) \<leftarrow>
                 QuadMultiMeanEncoder_forward_before_mean enc [''obs'' \<mapsto> batch w rows];
               mean_embed \<leftarrow> torch_mean_dim1 neighbor_embeds;
               embeddings \<leftarrow> torch_cat_dim1 self_embed mean_embed;
               out \<leftarrow> apply_linear (mean_enc.feed_forward enc) embeddings;
               Some out
             }
       \<and> (rows = [] \<or> neighbor_hidden_size enc = 0
           \<longrightarrow> QuadMultiMeanEncoder_forward enc [''obs'' \<mapsto> batch w rows] = None)
       \<and> (rows \<noteq> [] \<and> 0 < neighbor_hidden_size enc
           \<longrightarrow> ((\<exists>out. QuadMultiMeanEncoder_forward enc [''obs'' \<mapsto> batch w rows] = Some out)
                 \<longleftrightarrow> mean_enc.self_obs_dim enc \<le> w \<and> 0 < neighbor_obs_dim enc
                      \<and> neighbor_obs_dim enc dvd (w - mean_enc.self_obs_dim enc)))
       \<and> (rows \<noteq> [] \<and> 0 < neighbor_hidden_size enc \<and> 0 < neighbor_obs_dim enc
             \<and> w = mean_enc.self_obs_dim enc
           \<longrightarrow> (\<exists>self_embed neighbor_embeds.
                   QuadMultiMeanEncoder_forward_before_mean enc [''obs'' \<mapsto> batch w rows]
                     = Some (self_embed, neighbor_embeds)
                   \<and> shape neighbor_embeds = [length rows, 0, neighbor_hidden_size enc])
               \<and> QuadMultiMeanEncoder_forward enc [''obs'' \<mapsto> batch w rows]
                   = Some (batch (hidden_size cfg) (map (\<lambda>r. replicate (hidden_size cfg) NaN) rows)))
       \<and> (rows \<noteq> [] \<and> 0 < neighbor_hidden_size enc \<and> mean_enc.self_obs_dim enc < w
             \<and> neighbor_obs_dim enc dvd (w - mean_enc.self_obs_dim enc)
           \<longrightarrow> (\<exists>self_embed neighbor_embeds out.
                   QuadMultiMeanEncoder_forward_before_mean enc [''obs'' \<mapsto> batch w rows]
                     = Some (self_embed, neighbor_embeds)
                   \<and> shape neighbor_embeds
                       = [length rows, (w - mean_enc.self_obs_dim enc) div neighbor_obs_dim enc,
                          neighbor_hidden_size enc]
                   \<and> 0 < (w - mean_enc.self_obs_dim enc) div neighbor_obs_dim enc
                   \<and> QuadMultiMeanEncoder_forward enc [''obs'' \<mapsto> batch w rows] = Some out))"
proof -
  let ?s = "mean_enc.self_obs_dim enc" and ?d = "neighbor_obs_dim enc"
  let ?k = "neighbor_hidden_size enc"
  let ?obs = "[''obs'' \<mapsto> batch w rows]"
  let ?fw = "QuadMultiMeanEncoder_forward enc ?obs"
  let ?row = "mean_encoder_row cfg params ?s ?d ?k"
  have run: "?fw = Some (batch (hidden_size cfg) (map ?row rows))"
    if "w = ?s + n * ?d" "0 < ?d" "rows \<noteq> []" "0 < ?k" for n
    using mean_forward_batch [OF init _ that(3,2,4), of n] len that(1) by simp
  have pre: "\<exists>self_embed neighbor_embeds.
               QuadMultiMeanEncoder_forward_before_mean enc ?obs = Some (self_embed, neighbor_embeds)
               \<and> shape neighbor_embeds = [length rows, n, ?k]"
    if "w = ?s + n * ?d" "0 < ?d" "rows \<noteq> []" "0 < ?k" for n
    using before_mean_batch [OF init _ that(3,2,4), of n] len that(1) by simp
  have z: "?fw = None" if "rows = [] \<or> ?k = 0"
  proof (rule ccontr)
    assume "?fw \<noteq> None"
    then obtain out where "?fw = Some out" by auto
    from mean_forward_Some_imp [OF init this, of "length rows" w] that
    show False by simp
  qed
  have a: "(\<exists>out. ?fw = Some out) \<longleftrightarrow> ?s \<le> w \<and> 0 < ?d \<and> ?d dvd (w - ?s)"
    if "rows \<noteq> []" "0 < ?k"
  proof
    assume "\<exists>out. ?fw = Some out"
    then obtain out where "?fw = Some out" ..
    from mean_forward_Some_imp [OF init this, of "length rows" w]
    show "?s \<le> w \<and> 0 < ?d \<and> ?d dvd (w - ?s)" by simp
  next
    assume p: "?s \<le> w \<and> 0 < ?d \<and> ?d dvd (w - ?s)"
    then obtain n where "w - ?s = ?d * n" by (auto elim: dvdE)
    with p have "w = ?s + n * ?d" by (metis le_add_diff_inverse mult.commute)
    from run [OF this _ that] p show "\<exists>out. ?fw = Some out" by simp
  qed
  have b: "(\<exists>self_embed neighbor_embeds.
               QuadMultiMeanEncoder_forward_before_mean enc ?obs = Some (self_embed, neighbor_embeds)
               \<and> shape neighbor_embeds = [length rows, 0, ?k])
           \<and> ?fw = Some (batch (hidden_size cfg) (map (\<lambda>r. replicate (hidden_size cfg) NaN) rows))"
    if ne: "rows \<noteq> []" "0 < ?k" and d: "0 < ?d" and w: "w = ?s"
  proof
    from pre [of 0] w d ne
    show "\<exists>self_embed neighbor_embeds.
            QuadMultiMeanEncoder_forward_before_mean enc ?obs = Some (self_embed, neighbor_embeds)
            \<and> shape neighbor_embeds = [length rows, 0, ?k]"
      by simp
    have "map ?row rows = map (\<lambda>r. replicate (hidden_size cfg) NaN) rows"
      using len w ne(2) by (intro map_cong) (simp_all add: mean_encoder_row_no_neighbors)
    with run [of 0] w d ne
    show "?fw = Some (batch (hidden_size cfg) (map (\<lambda>r. replicate (hidden_size cfg) NaN) rows))"
      by simp
  qed
  have c: "\<exists>self_embed neighbor_embeds out.
             QuadMultiMeanEncoder_forward_before_mean enc ?obs = Some (self_embed, neighbor_embeds)
             \<and> shape neighbor_embeds = [length rows, (w - ?s) div ?d, ?k]
             \<and> 0 < (w - ?s) div ?d
             \<and> ?fw = Some out"
    if ne: "rows \<noteq> []" "0 < ?k" and lt: "?s < w" and dv: "?d dvd (w - ?s)"
  proof -
    from dv obtain n where n: "w - ?s = ?d * n" by (auto elim: dvdE)
    with lt have pos: "0 < n" "0 < ?d" by (auto intro: Nat.gr0I)
    from n lt have w: "w = ?s + n * ?d"
      by (metis le_add_diff_inverse less_imp_le_nat mult.commute)
    from n pos have dn: "(w - ?s) div ?d = n" by simp
    from pre [OF w pos(2) ne] run [OF w pos(2) ne] pos(1) show ?thesis
      unfolding dn by blast
  qed
  from forward_after_mean [of enc ?obs] z a b c show ?thesis
    by blast
qed

theorem mean_forward_precondition_witness:
  "\<exists>enc. QuadMultiMeanEncoder_init example_cfg example_params (Some 1) (Some 2) (Some 2) = Some enc
     \<and> (\<exists>self_embed neighbor_embeds out.
          QuadMultiMeanEncoder_forward_before_mean enc
            [''obs'' \<mapsto> batch 5 [[Fin 1, Fin 2, Fin 3, Fin 4, Fin 5],
                                   [Fin 7, Fin 8, Fin 9, Fin 0, Fin 6]]]
            = Some (self_embed, neighbor_embeds)
          \<and> shape neighbor_embeds = [2, 2, 2]
          \<and> QuadMultiMeanEncoder_forward enc
               [''obs'' \<mapsto> batch 5 [[Fin 1, Fin 2, Fin 3, Fin 4, Fin 5],
                                      [Fin 7, Fin 8, Fin 9, Fin 0, Fin 6]]] = Some out)
     \<and> (\<exists>self_embed neighbor_embeds.
          QuadMultiMeanEncoder_forward_before_mean enc [''obs'' \<mapsto> batch 1 [[Fin 1], [Fin 7]]]
            = Some (self_embed, neighbor_embeds)
          \<and> shape neighbor_embeds = [2, 0, 2])
     \<and> QuadMultiMeanEncoder_forward enc [''obs'' \<mapsto> batch 1 [[Fin 1], [Fin 7]]]
         = Some (batch 2 [[NaN, NaN], [NaN, NaN]])
     \<and> QuadMultiMeanEncoder_forward enc
          [''obs'' \<mapsto> batch 4 [[Fin 1, Fin 2, Fin 3, Fin 4], [Fin 7, Fin 8, Fin 9, Fin 0]]] = None
     \<and> QuadMultiMeanEncoder_forward enc [''obs'' \<mapsto> batch 5 []] = None"
proof -
  obtain enc where
    i: "QuadMultiMeanEncoder_init example_cfg example_params (Some 1) (Some 2) (Some 2) = Some enc"
    and f: "mean_enc.self_obs_dim enc = 1" "neighbor_obs_dim enc = 2" "neighbor_hidden_size enc = 2"
    by (rule example_mean_encoder)
  have hs: "hidden_size example_cfg = 2"
    by (simp add: example_cfg_def)
  have d2: "(5 - Suc 0) div 2 = (2 :: nat)"
    by simp
  from mean_forward_precondition
         [OF i, of "[[Fin 1, Fin 2, Fin 3, Fin 4, Fin 5], [Fin 7, Fin 8, Fin 9, Fin 0, Fin 6]]" 5,
          THEN conjunct2]
  have a: "\<exists>self_embed neighbor_embeds out.
          QuadMultiMeanEncoder_forward_before_mean enc
            [''obs'' \<mapsto> batch 5 [[Fin 1, Fin 2, Fin 3, Fin 4, Fin 5],
                                   [Fin 7, Fin 8, Fin 9, Fin 0, Fin 6]]]
            = Some (self_embed, neighbor_embeds)
          \<and> shape neighbor_embeds = [2, 2, 2]
          \<and> QuadMultiMeanEncoder_forward enc
               [''obs'' \<mapsto> batch 5 [[Fin 1, Fin 2, Fin 3, Fin 4, Fin 5],
                                      [Fin 7, Fin 8, Fin 9, Fin 0, Fin 6]]] = Some out"
    using f by (auto simp add: numeral_2_eq_2 [symmetric] d2)
  from mean_forward_precondition [OF i, of "[[Fin 1], [Fin 7]]" 1, THEN conjunct2]
  have b: "(\<exists>self_embed neighbor_embeds.
          QuadMultiMeanEncoder_forward_before_mean enc [''obs'' \<mapsto> batch 1 [[Fin 1], [Fin 7]]]
            = Some (self_embed, neighbor_embeds)
          \<and> shape neighbor_embeds = [2, 0, 2])
     \<and> QuadMultiMeanEncoder_forward enc [''obs'' \<mapsto> batch 1 [[Fin 1], [Fin 7]]]
         = Some (batch 2 [[NaN, NaN], [NaN, NaN]])"
    using f hs by (auto simp add: numeral_2_eq_2)
  from mean_forward_precondition
         [OF i, of "[[Fin 1, Fin 2, Fin 3, Fin 4], [Fin 7, Fin 8, Fin 9, Fin 0]]" 4, THEN conjunct2]
  have c: "QuadMultiMeanEncoder_forward enc
          [''obs'' \<mapsto> batch 4 [[Fin 1, Fin 2, Fin 3, Fin 4], [Fin 7, Fin 8, Fin 9, Fin 0]]] = None"
    using f by simp
  from mean_forward_precondition [OF i, of "[]" 5, THEN conjunct2]
  have e: "QuadMultiMeanEncoder_forward enc [''obs'' \<mapsto> batch 5 []] = None"
    by simp
  from i a b c e show ?thesis by blast
qed

section \<open>Properties of \<open>register_models\<close>\<close>

text \<open>
  Claim C2. Whenever the key is not yet in the registry and is neither
  \<open>'quad_multi_encoder_deepset'\<close> nor \<open>'quad_multi_encoder_histogram'\<close>, the
  call raises \<open>NotImplementedError\<close> with the message
  \<open>encoder <key> not supported!\<close>, in which the key occurs. For the two recognised
  keys, and for the call without argument, nothing is raised, whatever the registry
  holds.
\<close>

theorem register_models_not_implemented:
  "(ENCODER_REGISTRY name = None \<and> name \<noteq> ''quad_multi_encoder_deepset''
      \<and> name \<noteq> ''quad_multi_encoder_histogram'' \<longrightarrow>
      (\<exists>e. fst (register_models (Some name) ENCODER_REGISTRY) = Inl e
         \<and> e = NotImplementedError (''encoder '' @ name @ '' not supported!'')
         \<and> (\<exists>pre post. message e = pre @ name @ post)))
   \<and> \<not> raises (register_models (Some ''quad_multi_encoder_deepset'') ENCODER_REGISTRY)
   \<and> \<not> raises (register_models (Some ''quad_multi_encoder_histogram'') ENCODER_REGISTRY)
   \<and> \<not> raises (register_models None ENCODER_REGISTRY)"
proof -
  have contains: "\<exists>pre post. ''encoder '' @ name @ '' not supported!'' = pre @ name @ post"
    by (intro exI [of _ "''encoder ''"] exI [of _ "'' not supported!''"]) (rule refl)
  have unsupported: "fst (register_models (Some name) ENCODER_REGISTRY)
        = Inl (NotImplementedError (''encoder '' @ name @ '' not supported!''))"
    if "ENCODER_REGISTRY name = None" "name \<noteq> ''quad_multi_encoder_deepset''"
       "name \<noteq> ''quad_multi_encoder_histogram''"
    using that by (simp add: register_models_def)
  have recognised: "\<not> raises (register_models arg ENCODER_REGISTRY)"
    if "arg = None \<or> arg = Some ''quad_multi_encoder_deepset''
          \<or> arg = Some ''quad_multi_encoder_histogram''" for arg
    using that by (auto simp: register_models_def raises_def Let_def)
  from contains unsupported recognised show ?thesis
    by (simp del: append.simps append_Cons)
qed

theorem register_models_not_implemented_witness:
  "Map.empty ''not_a_real_encoder'' = (None :: encoder_cls option)
   \<and> ''not_a_real_encoder'' \<noteq> ''quad_multi_encoder_deepset''
   \<and> ''not_a_real_encoder'' \<noteq> ''quad_multi_encoder_histogram''
   \<and> fst (register_models (Some ''not_a_real_encoder'') Map.empty)
       = Inl (NotImplementedError ''encoder not_a_real_encoder not supported!'')
   \<and> raises (register_models (Some ''not_a_real_encoder'') Map.empty)"
  using register_models_not_implemented [of Map.empty "''not_a_real_encoder''"]
  by (simp add: raises_def)

text \<open>
  Claim C3. A call with a key the registry already holds returns normally and leaves
  the registry as it was; the same holds for the call without argument when the
  default key is present. In particular, the registry left by a call with a
  recognised key is a fixed point of a second call with that key: the class is
  registered once, the second call changes nothing.
\<close>

theorem register_models_present_noop:
  "(ENCODER_REGISTRY name \<noteq> None \<longrightarrow>
      register_models (Some name) ENCODER_REGISTRY = (Inr (), ENCODER_REGISTRY))
   \<and> (ENCODER_REGISTRY ''quad_multi_encoder_deepset'' \<noteq> None \<longrightarrow>
      register_models None ENCODER_REGISTRY = (Inr (), ENCODER_REGISTRY))
   \<and> (name = ''quad_multi_encoder_deepset'' \<or> name = ''quad_multi_encoder_histogram'' \<longrightarrow>
      (\<exists>REG1. register_models (Some name) ENCODER_REGISTRY = (Inr (), REG1)
         \<and> register_models (Some name) REG1 = (Inr (), REG1)))"
  by (auto simp: register_models_def register_custom_encoder_def Let_def)

theorem register_models_present_noop_witness:
  "[''quad_multi_encoder_deepset'' \<mapsto> OtherEncoder ''Conv''] ''quad_multi_encoder_deepset'' \<noteq> None
   \<and> register_models (Some ''quad_multi_encoder_deepset'')
         [''quad_multi_encoder_deepset'' \<mapsto> OtherEncoder ''Conv'']
       = (Inr (), [''quad_multi_encoder_deepset'' \<mapsto> OtherEncoder ''Conv''])
   \<and> register_models None [''quad_multi_encoder_deepset'' \<mapsto> OtherEncoder ''Conv'']
       = (Inr (), [''quad_multi_encoder_deepset'' \<mapsto> OtherEncoder ''Conv''])
   \<and> (\<exists>REG1. register_models (Some ''quad_multi_encoder_histogram'') Map.empty = (Inr (), REG1)
         \<and> register_models (Some ''quad_multi_encoder_histogram'') REG1 = (Inr (), REG1))"
  using register_models_present_noop
          [of "[''quad_multi_encoder_deepset'' \<mapsto> OtherEncoder ''Conv'']" "''quad_multi_encoder_deepset''"]
        register_models_present_noop [of Map.empty "''quad_multi_encoder_histogram''"]
  by simp

text \<open>
  Claim C4. From a registry without the key, \<open>'quad_multi_encoder_deepset'\<close> (given
  explicitly or as the default argument) ends with \<open>QuadMultiMeanEncoder\<close> under that
  key, and \<open>'quad_multi_encoder_histogram'\<close> ends with
  \<open>QuadMultiHistogramEncoder\<close> under that key; both calls return normally.
\<close>

theorem register_models_registers_matching_class:
  "(ENCODER_REGISTRY ''quad_multi_encoder_deepset'' = None \<longrightarrow>
      fst (register_models (Some ''quad_multi_encoder_deepset'') ENCODER_REGISTRY) = Inr ()
      \<and> snd (register_models (Some ''quad_multi_encoder_deepset'') ENCODER_REGISTRY)
            ''quad_multi_encoder_deepset'' = Some QuadMultiMeanEncoder
      \<and> fst (register_models None ENCODER_REGISTRY) = Inr ()
      \<and> snd (register_models None ENCODER_REGISTRY)
            ''quad_multi_encoder_deepset'' = Some QuadMultiMeanEncoder)
   \<and> (ENCODER_REGISTRY ''quad_multi_encoder_histogram'' = None \<longrightarrow>
      fst (register_models (Some ''quad_multi_encoder_histogram'') ENCODER_REGISTRY) = Inr ()
      \<and> snd (register_models (Some ''quad_multi_encoder_histogram'') ENCODER_REGISTRY)
            ''quad_multi_encoder_histogram'' = Some QuadMultiHistogramEncoder)"
  by (simp add: register_models_def register_custom_encoder_def Let_def)

theorem register_models_registers_matching_class_witness:
  "Map.empty ''quad_multi_encoder_deepset'' = (None :: encoder_cls option)
   \<and> snd (register_models (Some ''quad_multi_encoder_deepset'') Map.empty)
         ''quad_multi_encoder_deepset'' = Some QuadMultiMeanEncoder
   \<and> snd (register_models None Map.empty) ''quad_multi_encoder_deepset'' = Some QuadMultiMeanEncoder
   \<and> snd (register_models (Some ''quad_multi_encoder_histogram'') Map.empty)
         ''quad_multi_encoder_histogram'' = Some QuadMultiHistogramEncoder"
  using register_models_registers_matching_class [of Map.empty]
  by simp

text \<open>
  Claim C10. Frame and atomicity: a call leaves the entry of every key other than its
  own as it was, and a call that raises leaves the whole registry as it was.
\<close>

theorem register_models_frame:
  "(k \<noteq> name \<longrightarrow> snd (register_models (Some name) ENCODER_REGISTRY) k = ENCODER_REGISTRY k)
   \<and> (k \<noteq> ''quad_multi_encoder_deepset'' \<longrightarrow>
        snd (register_models None ENCODER_REGISTRY) k = ENCODER_REGISTRY k)
   \<and> (raises (register_models arg ENCODER_REGISTRY) \<longrightarrow>
        snd (register_models arg ENCODER_REGISTRY) = ENCODER_REGISTRY)"
  by (auto simp: register_models_def register_custom_encoder_def raises_def Let_def
           split: option.splits)

theorem register_models_frame_witness:
  "''conv_encoder'' \<noteq> ''quad_multi_encoder_histogram''
   \<and> snd (register_models (Some ''quad_multi_encoder_histogram'') [''conv_encoder'' \<mapsto> OtherEncoder ''Conv''])
        ''conv_encoder'' = Some (OtherEncoder ''Conv'')
   \<and> snd (register_models None [''conv_encoder'' \<mapsto> OtherEncoder ''Conv''])
        ''conv_encoder'' = Some (OtherEncoder ''Conv'')
   \<and> raises (register_models (Some ''not_a_real_encoder'') [''conv_encoder'' \<mapsto> OtherEncoder ''Conv''])
   \<and> snd (register_models (Some ''not_a_real_encoder'') [''conv_encoder'' \<mapsto> OtherEncoder ''Conv''])
        = [''conv_encoder'' \<mapsto> OtherEncoder ''Conv'']"
  using register_models_frame [of "''conv_encoder''" "''quad_multi_encoder_histogram''"
          "[''conv_encoder'' \<mapsto> OtherEncoder ''Conv'']" "Some ''not_a_real_encoder''"]
  by (simp add: raises_def register_models_def Let_def)

end
